theory Spec2Isabelle
  imports Main "HOL-Library.Word"
begin

section \<open>JavaScript values used by the bundling subsystem\<close>

text \<open>
  A JavaScript string is a sequence of UTF-16 code units. The strings that callers supply
  (\<open>setDataDirectory\<close>, \<open>stringToInt\<close>) are modelled as lists of 16-bit words, so that
  \<open>length\<close>, \<open>slice\<close> and \<open>split('')\<close> count what JavaScript counts. A \<open>Buffer\<close> or
  \<open>Uint8Array\<close> is a list of bytes.
\<close>

type_synonym js_string = "16 word list"

type_synonym buffer = "8 word list"

text \<open>
  The numbers that the string helpers exchange: \<open>charCodeAt\<close> yields an integer or
  \<open>NaN\<close>, and the decrypting caller hands \<open>Math.round\<close> results to \<open>intToString\<close>.
\<close>

datatype js_number = NaN | Num int

text \<open>What a \<open>throw\<close> carries: an \<open>Error\<close> with its message, or the numeric exception
  identifier that the WebAssembly engine raises.\<close>

datatype thrown = Error string | ThrownNumber nat

definition slash :: "16 word" where
  "slash = 0x2F"

subsection \<open>openfheCommon.service.ts: stringToInt and intToString\<close>

text \<open>\<open>s.split('')\<close>: one single-unit string per code unit.\<close>

definition split_empty :: "js_string \<Rightarrow> js_string list" where
  "split_empty s = map (\<lambda>c. [c]) s"

text \<open>\<open>s.charCodeAt(i)\<close>: the code unit at \<open>i\<close>, \<open>NaN\<close> out of range.\<close>

definition charCodeAt :: "js_string \<Rightarrow> nat \<Rightarrow> js_number" where
  "charCodeAt s i = (if i < length s then Num (uint (s ! i)) else NaN)"

text \<open>\<open>String.fromCharCode(num)\<close>: \<open>ToUint16\<close> of the number (\<open>NaN\<close> becomes 0), as a
  one-unit string.\<close>

definition fromCharCode :: "js_number \<Rightarrow> js_string" where
  "fromCharCode num = (case num of NaN \<Rightarrow> [0] | Num i \<Rightarrow> [word_of_int i])"

text \<open>\<open>arr.join('')\<close>.\<close>

definition join_empty :: "js_string list \<Rightarrow> js_string" where
  "join_empty arr = concat arr"

definition stringToInt :: "js_string \<Rightarrow> js_number list" where
  "stringToInt inputString = map (\<lambda>char. charCodeAt char 0) (split_empty inputString)"

definition intToString :: "js_number list \<Rightarrow> js_string" where
  "intToString intList = join_empty (map (\<lambda>num. fromCharCode num) intList)"

section \<open>The Artifact Engine\<close>

text \<open>
  The OpenFHE WebAssembly module and the objects it hands out are not part of the
  repository: the code reaches them through \<open>this.module\<close> and through methods of the
  context objects. They are a parameter of the model. An engine object (a context, a key)
  is an opaque handle. A call into the engine either raises a numeric exception
  identifier (the case the deserializer's \<open>catch\<close> translates) or returns; an export
  returns \<open>Buffer | null\<close>, a deserializer returns an object or a falsy value, and
  \<open>None\<close> stands for that \<open>null\<close> or falsy result. The serialization type \<open>SERTYPE\<close>
  is constant for one instance and is part of the engine functions here.
\<close>

type_synonym obj = nat

datatype 'a call = Throws nat | Returns 'a

record engine =
  SerializeCryptoContextToBuffer :: "obj \<Rightarrow> buffer option call"
  SerializePublicKeyToBuffer :: "obj \<Rightarrow> buffer option call"
  SerializePrivateKeyToBuffer :: "obj \<Rightarrow> buffer option call"
  SerializeEvalMultKeyToBuffer :: "obj \<Rightarrow> buffer option call"
  SerializeEvalAutomorphismKeyToBuffer :: "obj \<Rightarrow> buffer option call"
  SerializeSwkFC :: "obj \<Rightarrow> buffer option call"
  SerializeBinFHECryptoContextToBuffer :: "obj \<Rightarrow> buffer option call"
  SerializeBinFHERefreshKeyToBuffer :: "obj \<Rightarrow> buffer option call"
  SerializeBinFHESwitchingKeyToBuffer :: "obj \<Rightarrow> buffer option call"
  SerializeSeedSeqVector :: "nat list \<Rightarrow> buffer option call"
  GetRefreshKey :: "obj \<Rightarrow> obj"
  GetSwitchKey :: "obj \<Rightarrow> obj"
  BTKeyMap_keys :: "obj \<Rightarrow> nat list"
  BTKeyMap_get :: "obj \<Rightarrow> nat \<Rightarrow> obj \<times> obj"
  DeserializeCryptoContextFromBuffer :: "buffer \<Rightarrow> obj option call"
  DeserializePublicKeyFromBuffer :: "buffer \<Rightarrow> obj option call"
  DeserializePrivateKeyFromBuffer :: "buffer \<Rightarrow> obj option call"
  DeserializeEvalMultKeyFromBuffer :: "obj \<Rightarrow> buffer \<Rightarrow> unit call"
  DeserializeEvalAutomorphismKeyFromBuffer :: "obj \<Rightarrow> buffer \<Rightarrow> unit call"
  DeserializeSwkFC :: "buffer \<Rightarrow> obj option call"
  DeserializeBinFHECryptoContextFromBuffer :: "buffer \<Rightarrow> obj option call"
  DeserializeBinFHERefreshKeyFromBuffer :: "buffer \<Rightarrow> obj option call"
  DeserializeBinFHESwitchingKeyFromBuffer :: "buffer \<Rightarrow> obj option call"
  DeserializeSeedSeqVector :: "buffer \<Rightarrow> nat list option call"
  getExceptionMessage :: "nat \<Rightarrow> string"

text \<open>
  \<open>BTKeyMap_keys e bin\<close> is \<open>bin.GetBTKeyMap().keys()\<close> read from position 0 to
  \<open>size() - 1\<close>, and \<open>BTKeyMap_get e bin k\<close> is the pair
  \<open>(GetBTKeyMap().get(k).BSkey, GetBTKeyMap().get(k).KSkey)\<close>.

  The deserializer also calls methods that change engine objects and return nothing the
  code looks at. The model records each of them, in order, so that a theorem can say
  which of them happened.
\<close>

datatype effect =
    EvalMultKeyInstalled obj buffer
  | EvalAutomorphismKeyInstalled obj buffer
  | SetSwkFC obj obj
  | BTKeyLoad obj obj obj
  | BTKeyMapLoadSingleElement obj nat obj obj
  | SetBinCCForSchemeSwitch obj obj

section \<open>crypto-ctxt-ser-des.service.ts: the data model\<close>

text \<open>
  \<open>EvalKeyMappings\<close> is an array of one-key objects \<open>{[index]: {BSkey, KSkey}}\<close>: a list
  of an index with its two buffers, in the order of the \<open>push\<close> calls.
\<close>

record CryptoContextBuffers =
  cryptoContextBuffer :: "buffer option"
  publicKeyBuffer :: "buffer option"
  secretKeyBuffer :: "buffer option"
  evalMultKeyBuffer :: "buffer option"
  automorphismKeyBuffer :: "buffer option"
  FHEWtoCKKSSwitchKeyBuffer :: "buffer option"
  binfheCryptoContextBuffer :: "buffer option"
  binFHEBootRefreshKeyBuffer :: "buffer option"
  binFHEBootRotKeyBuffer :: "buffer option"
  keyIndexBuffer :: "buffer option"
  EvalKeyMappings :: "(nat \<times> buffer \<times> buffer) list"

record DataAndLocation =
  cryptoContext :: "obj option"
  publicKey :: "obj option"
  secretKey :: "obj option"
  binFHECryptoContext :: "obj option"
  FHEWtoCKKSSwitchKey :: "obj option"
  dataDirectory :: js_string
  module :: "engine option"
  buffers :: CryptoContextBuffers

text \<open>The file name fields keep the values of their initialisers: no method assigns them.\<close>

definition cryptoContextFile :: string where
  "cryptoContextFile = ''cryptocontext.txt''"

definition pubKeyFile :: string where
  "pubKeyFile = ''key_pub.txt''"

definition secretKeyFile :: string where
  "secretKeyFile = ''key_secret.txt''"

definition multKeyFile :: string where
  "multKeyFile = ''key_mult.txt''"

definition rotKeyFile :: string where
  "rotKeyFile = ''key_rot.txt''"

definition FHEWtoCKKSSwitchKeyFile :: string where
  "FHEWtoCKKSSwitchKeyFile = ''key_switch_fhew_ckks.txt''"

definition binFHECryptoContextFile :: string where
  "binFHECryptoContextFile = ''binfhe_cryptocontext.txt''"

definition binFHEBootRefreshKeyFile :: string where
  "binFHEBootRefreshKeyFile = ''key_binfhe_boot_refresh.txt''"

definition binFHEBootRotKeyFile :: string where
  "binFHEBootRotKeyFile = ''key_binfhe_boot_rot.txt''"

definition baseRefreshKeyFile :: string where
  "baseRefreshKeyFile = ''key_refresh.txt''"

definition baseSwitchingKeyFile :: string where
  "baseSwitchingKeyFile = ''key_switching.txt''"

definition keyIndexFile :: string where
  "keyIndexFile = ''key_indices.txt''"

text \<open>The field initialisers of the class: what a new instance holds.\<close>

definition buffers_init :: CryptoContextBuffers where
  "buffers_init =
     \<lparr>cryptoContextBuffer = None, publicKeyBuffer = None, secretKeyBuffer = None,
      evalMultKeyBuffer = None, automorphismKeyBuffer = None,
      FHEWtoCKKSSwitchKeyBuffer = None, binfheCryptoContextBuffer = None,
      binFHEBootRefreshKeyBuffer = None, binFHEBootRotKeyBuffer = None,
      keyIndexBuffer = None, EvalKeyMappings = []\<rparr>"

definition DataAndLocation_init :: DataAndLocation where
  "DataAndLocation_init =
     \<lparr>cryptoContext = None, publicKey = None, secretKey = None,
      binFHECryptoContext = None, FHEWtoCKKSSwitchKey = None,
      dataDirectory = map of_char ''demoData'', module = None, buffers = buffers_init\<rparr>"

text \<open>
  A method either returns or throws, and what it assigned before stays assigned: the
  outcome of a method is what it threw, if anything, with the state it left.
\<close>

type_synonym 's outcome = "thrown option \<times> 's"

definition and_then :: "'s outcome \<Rightarrow> ('s \<Rightarrow> 's outcome) \<Rightarrow> 's outcome" where
  "and_then r f = (case r of (None, s) \<Rightarrow> f s | (Some e, s) \<Rightarrow> (Some e, s))"

subsection \<open>DataAndLocation.setDataDirectory\<close>

text \<open>
  \<open>dir.slice(-1)\<close> is the last code unit as a string (the empty string for an empty
  \<open>dir\<close>); \<open>dir.slice(0, -1)\<close> is \<open>dir\<close> without its last code unit.
\<close>

definition slice_last :: "js_string \<Rightarrow> js_string" where
  "slice_last dir = (if dir = [] then [] else [last dir])"

definition slice_but_last :: "js_string \<Rightarrow> js_string" where
  "slice_but_last dir = butlast dir"

definition setDataDirectory :: "js_string \<Rightarrow> DataAndLocation \<Rightarrow> DataAndLocation outcome" where
  "setDataDirectory dir this =
     (if dir = [] then (Some (Error ''dir is an empty string''), this)
      else if slice_last dir = [slash] then (None, this\<lparr>dataDirectory := slice_but_last dir\<rparr>)
      else (None, this\<lparr>dataDirectory := dir\<rparr>))"

section \<open>SchemeSwitchingDataSerializer.Serialize\<close>

text \<open>
  Each of the first nine blocks of \<open>Serialize\<close> has one shape: call an export, assign the
  result to a field of \<open>this.buffers\<close>, and throw a fixed message when the result is
  falsy. A block is the triple of the call's result, the assignment and the message. When
  the call raises, nothing is assigned; when it returns \<open>null\<close>, the field is assigned
  \<open>null\<close> before the \<open>throw\<close>.
\<close>

type_synonym export =
  "buffer option call \<times> (buffer option \<Rightarrow> CryptoContextBuffers \<Rightarrow> CryptoContextBuffers) \<times> string"

definition store_export :: "export \<Rightarrow> CryptoContextBuffers \<Rightarrow> CryptoContextBuffers outcome" where
  "store_export x b =
     (case x of (result, assign, message) \<Rightarrow>
        (case result of
           Throws n \<Rightarrow> (Some (ThrownNumber n), b)
         | Returns buffer \<Rightarrow>
             (if buffer = None then (Some (Error message), assign buffer b)
              else (None, assign buffer b))))"

fun store_exports :: "export list \<Rightarrow> CryptoContextBuffers \<Rightarrow> CryptoContextBuffers outcome" where
  "store_exports [] b = (None, b)"
| "store_exports (x # xs) b = and_then (store_export x b) (store_exports xs)"

text \<open>The assignment a block makes once its call has returned.\<close>

definition assign_result :: "export \<Rightarrow> CryptoContextBuffers \<Rightarrow> CryptoContextBuffers" where
  "assign_result x b =
     (case x of (result, assign, message) \<Rightarrow>
        (case result of Throws n \<Rightarrow> b | Returns buffer \<Rightarrow> assign buffer b))"

definition top_level_exports :: "engine \<Rightarrow> obj \<Rightarrow> obj \<Rightarrow> obj \<Rightarrow> obj \<Rightarrow> obj \<Rightarrow> export list" where
  "top_level_exports m cc pk sk bin swk =
     [(SerializeCryptoContextToBuffer m cc, (\<lambda>v b. b\<lparr>cryptoContextBuffer := v\<rparr>),
         ''Exception writing cryptocontext to buffer''),
      (SerializePublicKeyToBuffer m pk, (\<lambda>v b. b\<lparr>publicKeyBuffer := v\<rparr>),
         ''Exception writing publicKey to buffer''),
      (SerializePrivateKeyToBuffer m sk, (\<lambda>v b. b\<lparr>secretKeyBuffer := v\<rparr>),
         ''Exception writing secretKey to buffer''),
      (SerializeEvalMultKeyToBuffer m cc, (\<lambda>v b. b\<lparr>evalMultKeyBuffer := v\<rparr>),
         ''Error writing eval mult keys to buffer''),
      (SerializeEvalAutomorphismKeyToBuffer m cc, (\<lambda>v b. b\<lparr>automorphismKeyBuffer := v\<rparr>),
         ''Error writing rotation keys to buffer''),
      (SerializeSwkFC m swk, (\<lambda>v b. b\<lparr>FHEWtoCKKSSwitchKeyBuffer := v\<rparr>),
         ''Exception writing FHEWtoCKKSSwitchKey to buffer''),
      (SerializeBinFHECryptoContextToBuffer m bin, (\<lambda>v b. b\<lparr>binfheCryptoContextBuffer := v\<rparr>),
         ''Exception writing binFHECryptoContext to buffer''),
      (SerializeBinFHERefreshKeyToBuffer m (GetRefreshKey m bin),
         (\<lambda>v b. b\<lparr>binFHEBootRefreshKeyBuffer := v\<rparr>),
         ''Exception writing binFHEBootRefreshKey to buffer''),
      (SerializeBinFHESwitchingKeyToBuffer m (GetSwitchKey m bin),
         (\<lambda>v b. b\<lparr>binFHEBootRotKeyBuffer := v\<rparr>),
         ''Exception writing binFHEBootRotKey to buffer'')]"

text \<open>
  The tenth export, after the loop: the accumulated \<open>indices\<close> vector into
  \<open>keyIndexBuffer\<close>.
\<close>

definition index_export :: "engine \<Rightarrow> nat list \<Rightarrow> export" where
  "index_export m indices =
     (SerializeSeedSeqVector m indices, (\<lambda>v b. b\<lparr>keyIndexBuffer := v\<rparr>),
      ''Exception writing indices to buffer'')"

text \<open>
  The \<open>for\<close> loop over \<open>BTKeyMapArr\<close>: the keys still to visit, the \<open>indices\<close> vector so
  far, and the buffers. Each round pushes onto \<open>this.buffers.EvalKeyMappings\<close> and onto
  \<open>indices\<close>; a round that throws leaves both as they were before it.
\<close>

fun serialize_key_map ::
  "engine \<Rightarrow> obj \<Rightarrow> nat list \<Rightarrow> nat list \<Rightarrow> CryptoContextBuffers
    \<Rightarrow> thrown option \<times> nat list \<times> CryptoContextBuffers" where
  "serialize_key_map m bin [] indices b = (None, indices, b)"
| "serialize_key_map m bin (thekey # rest) indices b =
     (case SerializeBinFHERefreshKeyToBuffer m (fst (BTKeyMap_get m bin thekey)) of
        Throws n \<Rightarrow> (Some (ThrownNumber n), indices, b)
      | Returns None \<Rightarrow> (Some (Error ''Exception writing BSkey to buffer''), indices, b)
      | Returns (Some binFHEBSkeyKeyBuffer) \<Rightarrow>
          (case SerializeBinFHESwitchingKeyToBuffer m (snd (BTKeyMap_get m bin thekey)) of
             Throws n \<Rightarrow> (Some (ThrownNumber n), indices, b)
           | Returns None \<Rightarrow> (Some (Error ''Exception writing KSkey to buffer''), indices, b)
           | Returns (Some binFHEKSkeyBuffer) \<Rightarrow>
               serialize_key_map m bin rest (indices @ [thekey])
                 (b\<lparr>EvalKeyMappings :=
                      EvalKeyMappings b @ [(thekey, binFHEBSkeyKeyBuffer, binFHEKSkeyBuffer)]\<rparr>)))"

definition Serialize_buffers ::
  "engine \<Rightarrow> obj \<Rightarrow> obj \<Rightarrow> obj \<Rightarrow> obj \<Rightarrow> obj \<Rightarrow> CryptoContextBuffers
    \<Rightarrow> CryptoContextBuffers outcome" where
  "Serialize_buffers m cc pk sk bin swk b =
     and_then (store_exports (top_level_exports m cc pk sk bin swk) b)
       (\<lambda>b. case serialize_key_map m bin (BTKeyMap_keys m bin) [] b of
               (Some e, indices, b') \<Rightarrow> (Some e, b')
             | (None, indices, b') \<Rightarrow> store_export (index_export m indices) b')"

definition Serialize :: "DataAndLocation \<Rightarrow> DataAndLocation outcome" where
  "Serialize this =
     (case module this of
        None \<Rightarrow> (Some (Error ''OPENFHE module is None''), this)
      | Some m \<Rightarrow>
     (case cryptoContext this of
        None \<Rightarrow> (Some (Error ''cryptoContext is None''), this)
      | Some cc \<Rightarrow>
     (case publicKey this of
        None \<Rightarrow> (Some (Error ''publicKey is None''), this)
      | Some pk \<Rightarrow>
     (case secretKey this of
        None \<Rightarrow> (Some (Error ''secretKey is None''), this)
      | Some sk \<Rightarrow>
     (case binFHECryptoContext this of
        None \<Rightarrow> (Some (Error ''binFHECryptoContext is None''), this)
      | Some bin \<Rightarrow>
     (case FHEWtoCKKSSwitchKey this of
        None \<Rightarrow> (Some (Error ''FHEWtoCKKSSwitchKey is None''), this)
      | Some swk \<Rightarrow>
          (case Serialize_buffers m cc pk sk bin swk (buffers this) of
             (r, b) \<Rightarrow> (r, this\<lparr>buffers := b\<rparr>))))))))"

text \<open>A bundle in which each of the ten named buffers is present.\<close>

definition fully_populated :: "CryptoContextBuffers \<Rightarrow> bool" where
  "fully_populated b =
     (cryptoContextBuffer b \<noteq> None \<and> publicKeyBuffer b \<noteq> None \<and> secretKeyBuffer b \<noteq> None
      \<and> evalMultKeyBuffer b \<noteq> None \<and> automorphismKeyBuffer b \<noteq> None
      \<and> FHEWtoCKKSSwitchKeyBuffer b \<noteq> None \<and> binfheCryptoContextBuffer b \<noteq> None
      \<and> binFHEBootRefreshKeyBuffer b \<noteq> None \<and> binFHEBootRotKeyBuffer b \<noteq> None
      \<and> keyIndexBuffer b \<noteq> None)"

section \<open>The archive: createDownloadableFile and uploadFile\<close>

text \<open>
  A loaded JSZip archive is its entries by name: \<open>zip.file(name)\<close> is the entry or
  \<open>null\<close>, \<open>zip.file(name, data)\<close> stores one. File names and messages are ASCII text.
  An index in a file name is printed as JavaScript prints a non-negative integer.
\<close>

type_synonym archive = "string \<Rightarrow> buffer option"

fun decimal :: "nat \<Rightarrow> string" where
  "decimal n =
     (if n < 10 then [char_of (48 + n)]
      else decimal (n div 10) @ [char_of (48 + n mod 10)])"

declare decimal.simps [simp del]

definition addBufferToZip :: "buffer option \<Rightarrow> string \<Rightarrow> archive \<Rightarrow> archive" where
  "addBufferToZip buffer fileName jszip =
     (case buffer of
        None \<Rightarrow> jszip
      | Some b \<Rightarrow> (if fileName \<noteq> [] then jszip(fileName \<mapsto> b) else jszip))"

definition addKeyMappingToZip :: "nat \<times> buffer \<times> buffer \<Rightarrow> archive \<Rightarrow> archive" where
  "addKeyMappingToZip mapping jszip =
     (case mapping of (key, BSkey, KSkey) \<Rightarrow>
        jszip(decimal key @ ''_'' @ baseRefreshKeyFile \<mapsto> BSkey,
            decimal key @ ''_'' @ baseSwitchingKeyFile \<mapsto> KSkey))"

definition createDownloadableFile :: "DataAndLocation \<Rightarrow> archive" where
  "createDownloadableFile this =
     (let b = buffers this;
          jszip = addBufferToZip (cryptoContextBuffer b) cryptoContextFile Map.empty;
          jszip = addBufferToZip (publicKeyBuffer b) pubKeyFile jszip;
          jszip = addBufferToZip (secretKeyBuffer b) secretKeyFile jszip;
          jszip = addBufferToZip (evalMultKeyBuffer b) multKeyFile jszip;
          jszip = addBufferToZip (automorphismKeyBuffer b) rotKeyFile jszip;
          jszip = addBufferToZip (FHEWtoCKKSSwitchKeyBuffer b) FHEWtoCKKSSwitchKeyFile jszip;
          jszip = addBufferToZip (binfheCryptoContextBuffer b) binFHECryptoContextFile jszip;
          jszip = addBufferToZip (binFHEBootRefreshKeyBuffer b) binFHEBootRefreshKeyFile jszip;
          jszip = addBufferToZip (binFHEBootRotKeyBuffer b) binFHEBootRotKeyFile jszip;
          jszip = addBufferToZip (keyIndexBuffer b) keyIndexFile jszip
      in fold addKeyMappingToZip (EvalKeyMappings b) jszip)"

text \<open>
  \<open>readFileFromZip\<close>: the content of the entry, \<open>null\<close> when there is none. A content
  that is read is a \<open>Buffer\<close> object, which is truthy whatever its length.
\<close>

definition readFileFromZip :: "archive \<Rightarrow> string \<Rightarrow> buffer option" where
  "readFileFromZip jszip fileName = jszip fileName"

text \<open>In both methods \<open>jszip\<close> is the local \<open>zip\<close>.\<close>

definition uploadFile :: "archive \<Rightarrow> DataAndLocation \<Rightarrow> DataAndLocation outcome" where
  "uploadFile jszip this =
     (None,
      this\<lparr>buffers := (buffers this)
        \<lparr>cryptoContextBuffer := readFileFromZip jszip cryptoContextFile,
         publicKeyBuffer := readFileFromZip jszip pubKeyFile,
         evalMultKeyBuffer := readFileFromZip jszip multKeyFile,
         automorphismKeyBuffer := readFileFromZip jszip rotKeyFile,
         FHEWtoCKKSSwitchKeyBuffer := readFileFromZip jszip FHEWtoCKKSSwitchKeyFile,
         binfheCryptoContextBuffer := readFileFromZip jszip binFHECryptoContextFile,
         binFHEBootRefreshKeyBuffer := readFileFromZip jszip binFHEBootRefreshKeyFile,
         binFHEBootRotKeyBuffer := readFileFromZip jszip binFHEBootRotKeyFile,
         keyIndexBuffer := readFileFromZip jszip keyIndexFile\<rparr>\<rparr>)"

section \<open>SchemeSwitchingDataDeserializer.deserialize\<close>

text \<open>
  The deserializer instance, with the record of the changes it made to engine objects.
\<close>

record reconstruction =
  self :: DataAndLocation
  effects :: "effect list"

text \<open>The inner function \<open>deserializeFile\<close>: it reads no field and assigns none.\<close>

definition deserializeFile ::
  "archive \<Rightarrow> string \<Rightarrow> (buffer \<Rightarrow> 'a option call) \<Rightarrow> thrown + 'a" where
  "deserializeFile unzippedFiles filename deserializeFunc =
     (case unzippedFiles filename of
        None \<Rightarrow> Inl (Error (''File '' @ filename @ '' not found in the zip''))
      | Some fileData \<Rightarrow>
          (case deserializeFunc fileData of
             Throws n \<Rightarrow> Inl (ThrownNumber n)
           | Returns None \<Rightarrow> Inl (Error (''Error deserializing from '' @ filename))
           | Returns (Some success) \<Rightarrow> Inr success))"

text \<open>A value awaited from \<open>deserializeFile\<close>: on a throw the state stays as it is.\<close>

definition awaited ::
  "thrown + 'a \<Rightarrow> reconstruction \<Rightarrow> ('a \<Rightarrow> reconstruction \<Rightarrow> reconstruction outcome)
    \<Rightarrow> reconstruction outcome" where
  "awaited r w k = (case r of Inl e \<Rightarrow> (Some e, w) | Inr a \<Rightarrow> k a w)"

text \<open>
  The two optional blocks: when the entry exists, its content is handed to the method of
  the context, whose result the code does not look at.
\<close>

definition install_if_present ::
  "archive \<Rightarrow> string \<Rightarrow> (buffer \<Rightarrow> unit call) \<Rightarrow> (buffer \<Rightarrow> effect) \<Rightarrow> reconstruction
    \<Rightarrow> reconstruction outcome" where
  "install_if_present unzippedFiles fileLoc install eff w =
     (case unzippedFiles fileLoc of
        None \<Rightarrow> (None, w)
      | Some keyBuffer \<Rightarrow>
          (case install keyBuffer of
             Throws n \<Rightarrow> (Some (ThrownNumber n), w)
           | Returns _ \<Rightarrow> (None, w\<lparr>effects := effects w @ [eff keyBuffer]\<rparr>)))"

definition createMapFileNameDeserialize :: "nat \<Rightarrow> string \<Rightarrow> string" where
  "createMapFileNameDeserialize index baseFileName = decimal index @ ''_'' @ baseFileName"

definition copyVecToJs :: "nat list \<Rightarrow> nat list" where
  "copyVecToJs vec = map (\<lambda>i. vec ! i) [0..<length vec]"

text \<open>The loop over the recovered indices.\<close>

fun load_indexed_keys ::
  "engine \<Rightarrow> archive \<Rightarrow> obj \<Rightarrow> nat list \<Rightarrow> reconstruction \<Rightarrow> reconstruction outcome" where
  "load_indexed_keys m unzippedFiles bin [] w = (None, w)"
| "load_indexed_keys m unzippedFiles bin (index # rest) w =
     awaited (deserializeFile unzippedFiles
                (createMapFileNameDeserialize index baseRefreshKeyFile)
                (DeserializeBinFHERefreshKeyFromBuffer m)) w
       (\<lambda>BSkey w.
     awaited (deserializeFile unzippedFiles
                (createMapFileNameDeserialize index baseSwitchingKeyFile)
                (DeserializeBinFHESwitchingKeyFromBuffer m)) w
       (\<lambda>KSkey w.
     load_indexed_keys m unzippedFiles bin rest
       (w\<lparr>effects := effects w @ [BTKeyMapLoadSingleElement bin index BSkey KSkey]\<rparr>)))"

text \<open>
  What a run of that loop records when every indexed entry is present and accepted: one
  \<open>BTKeyMapLoadSingleElement\<close> per index, in the order of the indices.
\<close>

definition indexed_key_effects :: "engine \<Rightarrow> archive \<Rightarrow> obj \<Rightarrow> nat list \<Rightarrow> effect list" where
  "indexed_key_effects m unzippedFiles bin indices =
     map (\<lambda>index. BTKeyMapLoadSingleElement bin index
            (projr (deserializeFile unzippedFiles
                      (createMapFileNameDeserialize index baseRefreshKeyFile)
                      (DeserializeBinFHERefreshKeyFromBuffer m)))
            (projr (deserializeFile unzippedFiles
                      (createMapFileNameDeserialize index baseSwitchingKeyFile)
                      (DeserializeBinFHESwitchingKeyFromBuffer m))))
       indices"

text \<open>The body of the \<open>try\<close> block.\<close>

definition deserialize_try :: "engine \<Rightarrow> archive \<Rightarrow> reconstruction \<Rightarrow> reconstruction outcome" where
  "deserialize_try m unzippedFiles w =
     awaited (deserializeFile unzippedFiles cryptoContextFile
                (DeserializeCryptoContextFromBuffer m)) w
       (\<lambda>cc w. let w = w\<lparr>self := (self w)\<lparr>cryptoContext := Some cc\<rparr>\<rparr> in
     awaited (deserializeFile unzippedFiles pubKeyFile
                (DeserializePublicKeyFromBuffer m)) w
       (\<lambda>pk w. let w = w\<lparr>self := (self w)\<lparr>publicKey := Some pk\<rparr>\<rparr> in
     awaited (deserializeFile unzippedFiles secretKeyFile
                (DeserializePrivateKeyFromBuffer m)) w
       (\<lambda>sk w. let w = w\<lparr>self := (self w)\<lparr>secretKey := Some sk\<rparr>\<rparr> in
     and_then (install_if_present unzippedFiles multKeyFile
                (DeserializeEvalMultKeyFromBuffer m cc) (EvalMultKeyInstalled cc) w)
       (\<lambda>w.
     and_then (install_if_present unzippedFiles rotKeyFile
                (DeserializeEvalAutomorphismKeyFromBuffer m cc)
                (EvalAutomorphismKeyInstalled cc) w)
       (\<lambda>w.
     awaited (deserializeFile unzippedFiles FHEWtoCKKSSwitchKeyFile (DeserializeSwkFC m)) w
       (\<lambda>swk w. let w = w\<lparr>self := (self w)\<lparr>FHEWtoCKKSSwitchKey := Some swk\<rparr>,
                           effects := effects w @ [SetSwkFC cc swk]\<rparr> in
     awaited (deserializeFile unzippedFiles binFHECryptoContextFile
                (DeserializeBinFHECryptoContextFromBuffer m)) w
       (\<lambda>bin w. let w = w\<lparr>self := (self w)\<lparr>binFHECryptoContext := Some bin\<rparr>\<rparr> in
     awaited (deserializeFile unzippedFiles binFHEBootRefreshKeyFile
                (DeserializeBinFHERefreshKeyFromBuffer m)) w
       (\<lambda>BSkey w.
     awaited (deserializeFile unzippedFiles binFHEBootRotKeyFile
                (DeserializeBinFHESwitchingKeyFromBuffer m)) w
       (\<lambda>KSkey w. let w = w\<lparr>effects := effects w @ [BTKeyLoad bin BSkey KSkey]\<rparr> in
     awaited (deserializeFile unzippedFiles keyIndexFile (DeserializeSeedSeqVector m)) w
       (\<lambda>vec w. let indices = copyVecToJs vec in
          if length indices = 0
          then (Some (Error (''Error deserializing from '' @ keyIndexFile
                              @ ''. No indices found.'')), w)
          else and_then (load_indexed_keys m unzippedFiles bin indices w)
                 (\<lambda>w. (None, w\<lparr>effects := effects w
                                   @ [SetBinCCForSchemeSwitch cc bin]\<rparr>))))))))))))"

text \<open>
  The \<open>catch\<close> block: a thrown number is translated by the engine, an \<open>Error\<close> is turned
  into a string (\<open>Error.prototype.toString\<close>), and the result is the message of a new
  \<open>Error\<close>.
\<close>

definition error_toString :: "string \<Rightarrow> string" where
  "error_toString message = (if message = [] then ''Error'' else ''Error: '' @ message)"

definition rethrow :: "engine \<Rightarrow> thrown \<Rightarrow> thrown" where
  "rethrow m error =
     (case error of
        ThrownNumber n \<Rightarrow> Error (getExceptionMessage m n)
      | Error message \<Rightarrow> Error (error_toString message))"

text \<open>
  The constructor stores its argument in \<open>this.module\<close>. With \<open>null\<close> there, the first
  read of a property of \<open>this.module\<close> inside the \<open>try\<close> raises a \<open>TypeError\<close>, whose
  wording is the JavaScript engine's own.
\<close>

definition deserialize :: "archive \<Rightarrow> reconstruction \<Rightarrow> reconstruction outcome" where
  "deserialize unzippedFiles w =
     (case module (self w) of
        None \<Rightarrow> (Some (Error ''TypeError: Cannot read properties of null''), w)
      | Some m \<Rightarrow>
          (case deserialize_try m unzippedFiles w of
             (None, w') \<Rightarrow> (None, w')
           | (Some error, w') \<Rightarrow> (Some (rethrow m error), w')))"

text \<open>A new deserializer for the module \<open>m\<close>, before any engine object was changed.\<close>

definition SchemeSwitchingDataDeserializer :: "engine \<Rightarrow> reconstruction" where
  "SchemeSwitchingDataDeserializer m =
     \<lparr>self = DataAndLocation_init\<lparr>module := Some m\<rparr>, effects = []\<rparr>"

section \<open>A concrete engine\<close>

text \<open>
  To run the model on concrete inputs: an engine that writes an object handle as one byte
  and reads it back, rejects any other buffer, and whose bootstrap key map holds the
  given indices.
\<close>

definition write_handle :: "obj \<Rightarrow> buffer option call" where
  "write_handle h = Returns (Some [of_nat h])"

definition read_handle :: "buffer \<Rightarrow> obj option call" where
  "read_handle buf = (case buf of [b] \<Rightarrow> Returns (Some (unat b)) | _ \<Rightarrow> Returns None)"

definition loopback :: "nat list \<Rightarrow> engine" where
  "loopback keys =
     \<lparr>SerializeCryptoContextToBuffer = write_handle,
      SerializePublicKeyToBuffer = write_handle,
      SerializePrivateKeyToBuffer = write_handle,
      SerializeEvalMultKeyToBuffer = write_handle,
      SerializeEvalAutomorphismKeyToBuffer = write_handle,
      SerializeSwkFC = write_handle,
      SerializeBinFHECryptoContextToBuffer = write_handle,
      SerializeBinFHERefreshKeyToBuffer = write_handle,
      SerializeBinFHESwitchingKeyToBuffer = write_handle,
      SerializeSeedSeqVector = (\<lambda>indices. Returns (Some (map of_nat indices))),
      GetRefreshKey = (\<lambda>bin. bin + 1),
      GetSwitchKey = (\<lambda>bin. bin + 2),
      BTKeyMap_keys = (\<lambda>bin. keys),
      BTKeyMap_get = (\<lambda>bin k. (10 + k, 20 + k)),
      DeserializeCryptoContextFromBuffer = read_handle,
      DeserializePublicKeyFromBuffer = read_handle,
      DeserializePrivateKeyFromBuffer = read_handle,
      DeserializeEvalMultKeyFromBuffer = (\<lambda>cc buf. Returns ()),
      DeserializeEvalAutomorphismKeyFromBuffer = (\<lambda>cc buf. Returns ()),
      DeserializeSwkFC = read_handle,
      DeserializeBinFHECryptoContextFromBuffer = read_handle,
      DeserializeBinFHERefreshKeyFromBuffer = read_handle,
      DeserializeBinFHESwitchingKeyFromBuffer = read_handle,
      DeserializeSeedSeqVector = (\<lambda>buf. Returns (Some (map unat buf))),
      getExceptionMessage = (\<lambda>n. ''engine exception'')\<rparr>"

text \<open>
  A serializer as its constructor leaves it for the context 1 and the keys 2 and 3, where
  \<open>GetBinCCForSchemeSwitch\<close> gave 4 and \<open>GetSwkFC\<close> gave 5, with its \<open>module\<close> field set.
\<close>

definition SchemeSwitchingDataSerializer :: "engine \<Rightarrow> DataAndLocation" where
  "SchemeSwitchingDataSerializer m =
     DataAndLocation_init
       \<lparr>cryptoContext := Some 1, publicKey := Some 2, secretKey := Some 3,
        binFHECryptoContext := Some 4, FHEWtoCKKSSwitchKey := Some 5, module := Some m\<rparr>"

section \<open>Chunked transfer: createDownloadableFileViaWorker\<close>

text \<open>
  The messages a worker posts back, by their \<open>type\<close> tag. A message with any other tag is
  ignored by the handler, as \<open>fileCreated\<close> is.
\<close>

datatype message =
    FileChunk buffer nat nat  \<comment> \<open>\<open>chunk\<close>, \<open>index\<close>, \<open>totalChunks\<close>\<close>
  | FileCreated
  | ErrorMessage string

text \<open>The promise returned to the caller: only the first \<open>resolve\<close> or \<open>reject\<close> settles it.\<close>

datatype promise = Pending | Resolved buffer | Rejected thrown

definition resolve :: "buffer \<Rightarrow> promise \<Rightarrow> promise" where
  "resolve v p = (case p of Pending \<Rightarrow> Resolved v | _ \<Rightarrow> p)"

definition reject :: "thrown \<Rightarrow> promise \<Rightarrow> promise" where
  "reject e p = (case p of Pending \<Rightarrow> Rejected e | _ \<Rightarrow> p)"

text \<open>
  \<open>const chunks: Uint8Array[] = []\<close> is a JavaScript array that the handler writes by
  index, so it may have holes: a slot is \<open>None\<close> while nothing has been stored there.
  \<open>chunks[index] = chunk\<close> overwrites a slot inside the array, and beyond its end it
  extends the array with holes up to \<open>index\<close>, so that \<open>chunks.length\<close> becomes
  \<open>index + 1\<close>.
\<close>

definition array_store :: "'a option list \<Rightarrow> nat \<Rightarrow> 'a \<Rightarrow> 'a option list" where
  "array_store xs i v =
     (if i < length xs then xs[i := Some v]
      else xs @ replicate (i - length xs) None @ [Some v])"

text \<open>\<open>chunks.reduce((sum, chunk) => sum + (chunk ? chunk.length : 0), 0)\<close>\<close>

definition totalLength :: "buffer option list \<Rightarrow> nat" where
  "totalLength cs = fold (\<lambda>c sum. sum + (case c of None \<Rightarrow> 0 | Some b \<Rightarrow> length b)) cs 0"

text \<open>\<open>fullArray.set(chunk, offset)\<close>, for a chunk that fits.\<close>

definition typed_array_set :: "buffer \<Rightarrow> buffer \<Rightarrow> nat \<Rightarrow> buffer" where
  "typed_array_set full c offset = take offset full @ c @ drop (offset + length c) full"

text \<open>The \<open>forEach\<close> that copies every stored chunk at the running offset into a
  zero-filled \<open>Uint8Array\<close> of the total length.\<close>

definition fullArray :: "buffer option list \<Rightarrow> buffer" where
  "fullArray cs =
     fst (fold (\<lambda>c (full, offset).
                 case c of None \<Rightarrow> (full, offset)
                 | Some b \<Rightarrow> (typed_array_set full b offset, offset + length b))
            cs (replicate (totalLength cs) 0, 0))"

text \<open>The chunks that are stored, in index order, end to end.\<close>

definition stored :: "buffer option list \<Rightarrow> buffer" where
  "stored cs = concat (map (\<lambda>c. case c of None \<Rightarrow> [] | Some b \<Rightarrow> b) cs)"

record transfer =
  chunks :: "buffer option list"
  settled :: promise

definition transfer_start :: transfer where
  "transfer_start = \<lparr>chunks = [], settled = Pending\<rparr>"

definition onmessage :: "message \<Rightarrow> transfer \<Rightarrow> transfer" where
  "onmessage event t =
     (case event of
        FileChunk chunk index receivedTotalChunks \<Rightarrow>
          (let cs = array_store (chunks t) index chunk
           in if length cs = receivedTotalChunks
              then \<lparr>chunks = cs, settled = resolve (fullArray cs) (settled t)\<rparr>
              else \<lparr>chunks = cs, settled = settled t\<rparr>)
      | FileCreated \<Rightarrow> t
      | ErrorMessage err \<Rightarrow> t\<lparr>settled := reject (Error err) (settled t)\<rparr>)"

text \<open>The handler run over the messages in their order of arrival.\<close>

definition receive :: "message list \<Rightarrow> transfer" where
  "receive events = fold onmessage events transfer_start"

section \<open>String helpers\<close>

lemma fromCharCode_charCodeAt: "fromCharCode (charCodeAt [c] 0) = [c]"
  by (simp add: fromCharCode_def charCodeAt_def)

text \<open>
  Claim C10. For every JavaScript string \<open>s\<close>, \<open>intToString(stringToInt(s))\<close> is \<open>s\<close>:
  \<open>stringToInt\<close> maps each position to its UTF-16 code unit, \<open>intToString\<close> maps each
  code unit back to its one-unit string and joins them.
\<close>

theorem intToString_stringToInt: "intToString (stringToInt s) = s"
  by (induction s)
    (simp_all add: intToString_def stringToInt_def split_empty_def join_empty_def
      fromCharCode_charCodeAt)

section \<open>The data directory\<close>

text \<open>
  Claim C9. \<open>setDataDirectory\<close> throws for the empty string. For a non-empty \<open>dir\<close> ending
  in \<open>/\<close> the stored directory is \<open>dir\<close> without its final code unit, so exactly one slash
  is removed and a \<open>dir\<close> ending in \<open>//\<close> still ends in \<open>/\<close>; for a non-empty \<open>dir\<close> not
  ending in \<open>/\<close> the stored directory is \<open>dir\<close>.
\<close>

theorem setDataDirectory_spec:
  "setDataDirectory [] this = (Some (Error ''dir is an empty string''), this)
   \<and> (dir \<noteq> [] \<and> last dir = slash \<longrightarrow>
        setDataDirectory dir this = (None, this\<lparr>dataDirectory := butlast dir\<rparr>)
        \<and> butlast dir @ [slash] = dir)
   \<and> setDataDirectory (pre @ [slash, slash]) this
        = (None, this\<lparr>dataDirectory := pre @ [slash]\<rparr>)
   \<and> (dir \<noteq> [] \<and> last dir \<noteq> slash \<longrightarrow>
        setDataDirectory dir this = (None, this\<lparr>dataDirectory := dir\<rparr>))"
proof -
  have "pre @ [slash, slash] = (pre @ [slash]) @ [slash]"
    by simp
  then have "butlast (pre @ [slash, slash]) = pre @ [slash]"
    by (simp only: butlast_snoc)
  then show ?thesis
    by (auto simp: setDataDirectory_def slice_last_def slice_but_last_def
        dest: append_butlast_last_id)
qed

theorem setDataDirectory_spec_witness:
  "dataDirectory (snd (setDataDirectory [0x61, slash, slash] DataAndLocation_init))
     = [0x61, slash]
   \<and> dataDirectory (snd (setDataDirectory [0x61, slash] DataAndLocation_init)) = [0x61]
   \<and> dataDirectory (snd (setDataDirectory [0x61] DataAndLocation_init)) = [0x61]
   \<and> fst (setDataDirectory [] DataAndLocation_init) = Some (Error ''dir is an empty string'')"
  using setDataDirectory_spec [of DataAndLocation_init "[0x61, slash]" "[0x61]"]
    setDataDirectory_spec [of DataAndLocation_init "[0x61]" "[]"]
  by (simp add: slash_def)

section \<open>Chunk reassembly\<close>

lemma totalLength_fold:
  "fold (\<lambda>c sum. sum + (case c of None \<Rightarrow> 0 | Some b \<Rightarrow> length b)) cs n
   = n + length (stored cs)"
  by (induction cs arbitrary: n) (auto simp: stored_def split: option.splits)

lemma totalLength_stored: "totalLength cs = length (stored cs)"
  by (simp add: totalLength_def totalLength_fold)

lemma typed_array_set_zeros:
  "length c \<le> n \<Longrightarrow>
   typed_array_set (pre @ replicate n 0) c (length pre) = (pre @ c) @ replicate (n - length c) 0"
  by (simp add: typed_array_set_def)

lemma copy_chunks:
  "length (stored cs) \<le> n \<Longrightarrow>
   fold (\<lambda>c (full, offset).
           case c of None \<Rightarrow> (full, offset)
           | Some b \<Rightarrow> (typed_array_set full b offset, offset + length b))
     cs (pre @ replicate n 0, length pre)
   = ((pre @ stored cs) @ replicate (n - length (stored cs)) 0, length pre + length (stored cs))"
proof (induction cs arbitrary: pre n)
  case Nil
  then show ?case by (simp add: stored_def)
next
  case (Cons c cs)
  show ?case
  proof (cases c)
    case None
    with Cons show ?thesis by (simp add: stored_def)
  next
    case (Some b)
    with Cons.prems have le: "length b \<le> n" "length (stored cs) \<le> n - length b"
      by (simp_all add: stored_def)
    from Cons.IH [OF le(2), of "pre @ b"] Some le show ?thesis
      by (simp add: typed_array_set_zeros stored_def)
  qed
qed

lemma fullArray_stored: "fullArray cs = stored cs"
  using copy_chunks [of cs "length (stored cs)" "[]"]
  by (simp add: fullArray_def totalLength_stored)

lemma stored_present: "stored (map Some cs) = concat cs"
  by (simp add: stored_def comp_def)

lemma receive_prefix_in_order:
  "k \<le> length cs \<Longrightarrow>
   fold onmessage (map (\<lambda>i. FileChunk (cs ! i) i (length cs)) [0..<k]) transfer_start
   = \<lparr>chunks = map Some (take k cs),
      settled = (if k = length cs \<and> 0 < k then Resolved (concat cs) else Pending)\<rparr>"
proof (induction k)
  case 0
  then show ?case by (simp add: transfer_start_def)
next
  case (Suc k)
  then have k: "k < length cs"
    by simp
  then have "array_store (map Some (take k cs)) k (cs ! k) = map Some (take (Suc k) cs)"
    by (simp add: array_store_def take_Suc_conv_app_nth)
  with Suc k show ?case
    by (simp add: onmessage_def resolve_def fullArray_stored stored_present)
qed

text \<open>
  Delivered in index order, the chunks of a non-empty chunk set are assembled end to end,
  and the promise resolves with them when the last one arrives.
\<close>

lemma receive_in_index_order:
  "cs \<noteq> [] \<Longrightarrow>
   settled (receive (map (\<lambda>i. FileChunk (cs ! i) i (length cs)) [0..<length cs]))
   = Resolved (concat cs)"
  by (simp add: receive_def receive_prefix_in_order)

text \<open>
  Claim C1. Completion is to be declared only once every slot \<open>0..totalChunks-1\<close> is
  filled. The handler compares \<open>chunks.length\<close> with \<open>totalChunks\<close>, and a write at the
  highest index sets that length at once: when chunk 2 of 3 arrives first, the promise
  resolves with that chunk alone while slots 0 and 1 are still holes.
\<close>

theorem onmessage_completes_with_holes:
  "chunks (receive [FileChunk [7] 2 3]) = [None, None, Some [7]]
   \<and> settled (receive [FileChunk [7] 2 3]) = Resolved [7]"
  by (simp add: receive_def transfer_start_def onmessage_def array_store_def resolve_def
      fullArray_def totalLength_def typed_array_set_def eval_nat_numeral)

text \<open>
  Claim C2. Delivery in any order is to assemble the same bytes as delivery in index
  order. For three one-byte chunks, the order 2, 0, 1 resolves the promise with the last
  chunk only, and the order 0, 1, 2 with all three.
\<close>

theorem receive_order_dependent:
  "settled (receive [FileChunk [3] 2 3, FileChunk [1] 0 3, FileChunk [2] 1 3]) = Resolved [3]
   \<and> settled (receive [FileChunk [1] 0 3, FileChunk [2] 1 3, FileChunk [3] 2 3])
       = Resolved [1, 2, 3]"
  by (simp add: receive_def transfer_start_def onmessage_def array_store_def resolve_def
      fullArray_def totalLength_def typed_array_set_def eval_nat_numeral)

section \<open>Serialize\<close>

lemma and_then_None [simp]: "and_then (None, s) f = f s"
  by (simp add: and_then_def)

lemma and_then_Some [simp]: "and_then (Some e, s) f = (Some e, s)"
  by (simp add: and_then_def)

lemma store_export_Some:
  "store_export (Returns (Some v), assign, message) b = (None, assign (Some v) b)"
  by (simp add: store_export_def)

lemma store_export_None:
  "store_export (Returns None, assign, message) b = (Some (Error message), assign None b)"
  by (simp add: store_export_def)

lemma assign_result_Returns:
  "assign_result (Returns v, assign, message) b = assign v b"
  by (simp add: assign_result_def)

lemma store_exports_fail_fast:
  assumes "i < length xs"
    and "\<forall>j<i. \<exists>v. fst (xs ! j) = Returns (Some v)"
    and "fst (xs ! i) = Returns None"
  shows "store_exports xs b
         = (Some (Error (snd (snd (xs ! i)))), fold assign_result (take (Suc i) xs) b)"
  using assms
proof (induction xs arbitrary: i b)
  case Nil
  then show ?case by simp
next
  case (Cons x xs)
  obtain result assign message where x: "x = (result, assign, message)"
    by (cases x)
  show ?case
  proof (cases i)
    case 0
    with Cons.prems x show ?thesis
      by (simp add: store_export_None assign_result_Returns)
  next
    case (Suc k)
    from Cons.prems(2) Suc obtain v where v: "result = Returns (Some v)"
      using x by fastforce
    have "\<forall>j<k. \<exists>v. fst (xs ! j) = Returns (Some v)"
      using Cons.prems(2) Suc by fastforce
    moreover have "k < length xs" "fst (xs ! k) = Returns None"
      using Cons.prems Suc by simp_all
    ultimately have "store_exports xs (assign (Some v) b)
         = (Some (Error (snd (snd (xs ! k)))), fold assign_result (take (Suc k) xs) (assign (Some v) b))"
      using Cons.IH by blast
    then show ?thesis
      using Suc x v by (simp add: store_export_Some assign_result_Returns)
  qed
qed

lemma store_exports_all:
  assumes "\<forall>x\<in>set xs. \<exists>v. fst x = Returns (Some v)"
  shows "store_exports xs b = (None, fold assign_result xs b)"
  using assms
proof (induction xs arbitrary: b)
  case Nil
  then show ?case by simp
next
  case (Cons x xs)
  obtain result assign message where x: "x = (result, assign, message)"
    by (cases x)
  from Cons.prems x obtain v where "result = Returns (Some v)"
    by auto
  with Cons x show ?case
    by (simp add: store_export_Some assign_result_Returns)
qed

lemma serialize_key_map_result:
  "serialize_key_map m bin ks indices b = (None, indices', b') \<Longrightarrow>
     indices' = indices @ ks
     \<and> map fst (EvalKeyMappings b') = map fst (EvalKeyMappings b) @ ks
     \<and> b' = b\<lparr>EvalKeyMappings := EvalKeyMappings b'\<rparr>"
proof (induction ks arbitrary: indices b)
  case Nil
  then show ?case by simp
next
  case (Cons k ks)
  from Cons.prems obtain bs where bs:
    "SerializeBinFHERefreshKeyToBuffer m (fst (BTKeyMap_get m bin k)) = Returns (Some bs)"
    by (auto split: call.splits option.splits)
  from Cons.prems bs obtain sw where sw:
    "SerializeBinFHESwitchingKeyToBuffer m (snd (BTKeyMap_get m bin k)) = Returns (Some sw)"
    by (auto split: call.splits option.splits)
  from Cons.prems bs sw have
    "serialize_key_map m bin ks (indices @ [k])
       (b\<lparr>EvalKeyMappings := EvalKeyMappings b @ [(k, bs, sw)]\<rparr>) = (None, indices', b')"
    by simp
  from Cons.IH [OF this] show ?case
    by simp
qed

lemma serialize_key_map_succeeds:
  assumes "\<forall>k\<in>set ks. \<exists>bs sw.
      SerializeBinFHERefreshKeyToBuffer m (fst (BTKeyMap_get m bin k)) = Returns (Some bs)
      \<and> SerializeBinFHESwitchingKeyToBuffer m (snd (BTKeyMap_get m bin k)) = Returns (Some sw)"
  shows "fst (serialize_key_map m bin ks indices b) = None"
  using assms by (induction ks arbitrary: indices b) auto

lemma store_export_EvalKeyMappings:
  assumes "\<forall>v b. EvalKeyMappings (fst (snd x) v b) = EvalKeyMappings b"
  shows "EvalKeyMappings (snd (store_export x b)) = EvalKeyMappings b"
  using assms by (cases x) (auto simp: store_export_def split: call.splits)

lemma store_exports_EvalKeyMappings:
  assumes "\<forall>x\<in>set xs. \<forall>v b. EvalKeyMappings (fst (snd x) v b) = EvalKeyMappings b"
  shows "EvalKeyMappings (snd (store_exports xs b)) = EvalKeyMappings b"
  using assms
proof (induction xs arbitrary: b)
  case Nil
  then show ?case by simp
next
  case (Cons x xs)
  obtain r b1 where r: "store_export x b = (r, b1)"
    by (cases "store_export x b")
  have b1: "EvalKeyMappings b1 = EvalKeyMappings b"
    using store_export_EvalKeyMappings [of x b] Cons.prems r by simp
  show ?case
  proof (cases r)
    case None
    with r b1 Cons show ?thesis by simp
  next
    case (Some e)
    with r b1 show ?thesis by simp
  qed
qed

lemma top_level_exports_EvalKeyMappings:
  "\<forall>x\<in>set (top_level_exports m cc pk sk bin swk).
     \<forall>v b. EvalKeyMappings (fst (snd x) v b) = EvalKeyMappings b"
  by (simp add: top_level_exports_def)

lemma Serialize_initialised:
  assumes "module this = Some m" and "cryptoContext this = Some cc"
    and "publicKey this = Some pk" and "secretKey this = Some sk"
    and "binFHECryptoContext this = Some bin" and "FHEWtoCKKSSwitchKey this = Some swk"
  shows "Serialize this
         = (case Serialize_buffers m cc pk sk bin swk (buffers this) of
              (r, b) \<Rightarrow> (r, this\<lparr>buffers := b\<rparr>))"
  using assms by (simp add: Serialize_def)

lemma store_exports_returned:
  "store_exports xs b = (None, b') \<Longrightarrow>
   (\<forall>x\<in>set xs. \<exists>v. fst x = Returns (Some v)) \<and> b' = fold assign_result xs b"
proof (induction xs arbitrary: b)
  case Nil
  then show ?case by simp
next
  case (Cons x xs)
  obtain result assign message where x: "x = (result, assign, message)"
    by (cases x)
  from Cons.prems x obtain v where v: "result = Returns (Some v)"
    by (auto simp: store_export_def and_then_def split: call.splits if_splits)
  with Cons.prems x have "store_exports xs (assign (Some v) b) = (None, b')"
    by (simp add: store_export_Some)
  from Cons.IH [OF this] x v show ?case
    by (simp add: assign_result_Returns)
qed

lemma top_level_exports_populated:
  assumes "\<forall>x\<in>set (top_level_exports m cc pk sk bin swk). \<exists>v. fst x = Returns (Some v)"
  shows "fully_populated
           ((fold assign_result (top_level_exports m cc pk sk bin swk) b)
              \<lparr>EvalKeyMappings := pairs, keyIndexBuffer := Some ib\<rparr>)"
  using assms
  by (auto simp: top_level_exports_def assign_result_Returns fully_populated_def)

lemma Serialize_success_populated:
  assumes ok: "fst (Serialize this) = None"
  shows "fully_populated (buffers (snd (Serialize this)))"
proof -
  from ok obtain m cc pk sk bin swk where fields:
    "module this = Some m" "cryptoContext this = Some cc" "publicKey this = Some pk"
    "secretKey this = Some sk" "binFHECryptoContext this = Some bin"
    "FHEWtoCKKSSwitchKey this = Some swk"
    by (auto simp: Serialize_def split: option.splits)
  let ?xs = "top_level_exports m cc pk sk bin swk"
  note unfold = Serialize_initialised [OF fields]
  obtain r1 b1 where top: "store_exports ?xs (buffers this) = (r1, b1)"
    by (cases "store_exports ?xs (buffers this)")
  have r1: "r1 = None"
    using ok top by (cases r1) (simp_all add: unfold Serialize_buffers_def)
  from store_exports_returned [OF top [unfolded r1]]
  have all: "\<forall>x\<in>set ?xs. \<exists>v. fst x = Returns (Some v)"
    and b1: "b1 = fold assign_result ?xs (buffers this)"
    by simp_all
  obtain r2 indices b2 where loop:
    "serialize_key_map m bin (BTKeyMap_keys m bin) [] b1 = (r2, indices, b2)"
    by (cases "serialize_key_map m bin (BTKeyMap_keys m bin) [] b1")
  have r2: "r2 = None"
    using ok top r1 loop by (cases r2) (simp_all add: unfold Serialize_buffers_def)
  from serialize_key_map_result [OF loop [unfolded r2]]
  have b2: "b2 = b1\<lparr>EvalKeyMappings := EvalKeyMappings b2\<rparr>"
    by simp
  have last: "Serialize this
      = (case store_export (index_export m indices) b2 of
           (r, b) \<Rightarrow> (r, this\<lparr>buffers := b\<rparr>))"
    using top r1 loop r2 by (simp add: unfold Serialize_buffers_def)
  from ok last obtain ib where "SerializeSeedSeqVector m indices = Returns (Some ib)"
    by (auto simp: index_export_def store_export_def split: call.splits if_splits)
  with last have "buffers (snd (Serialize this)) = b2\<lparr>keyIndexBuffer := Some ib\<rparr>"
    by (simp add: index_export_def store_export_Some)
  also have "\<dots> = b1\<lparr>EvalKeyMappings := EvalKeyMappings b2, keyIndexBuffer := Some ib\<rparr>"
    using b2 by simp
  finally show ?thesis
    using top_level_exports_populated [OF all] b1 by simp
qed

text \<open>The definitions to unfold when \<open>Serialize\<close> is run on the concrete engine.\<close>

lemmas run_Serialize =
  Serialize_def Serialize_buffers_def top_level_exports_def index_export_def
  store_export_def SchemeSwitchingDataSerializer_def DataAndLocation_init_def
  buffers_init_def loopback_def write_handle_def

text \<open>
  Claim C4. \<open>Serialize\<close> is fail-fast on every top-level artifact. The nine exports of
  \<open>top_level_exports\<close> are, in order, the crypto context, the public key, the secret key,
  the eval-mult keys, the rotation keys, the FHEW-to-CKKS switch key, the binFHE context,
  its refresh key and its switching key; the tenth is the index list. When the exports
  before one have returned buffers and that one returns \<open>null\<close> (the absent result of
  \<open>Buffer | null\<close>), \<open>Serialize\<close> throws the message that names it, and nothing is
  returned. No later export is made: \<open>this.buffers\<close> holds the assignments up to the
  failing one and is otherwise as before the call. A partial bundle is never passed off
  as a result: whenever \<open>Serialize\<close> returns, each of the ten buffers is present.
\<close>

theorem Serialize_fail_fast:
  assumes "module this = Some m" and "cryptoContext this = Some cc"
    and "publicKey this = Some pk" and "secretKey this = Some sk"
    and "binFHECryptoContext this = Some bin" and "FHEWtoCKKSSwitchKey this = Some swk"
  shows "(\<forall>i<length (top_level_exports m cc pk sk bin swk).
            (\<forall>j<i. \<exists>v. fst (top_level_exports m cc pk sk bin swk ! j) = Returns (Some v)) \<longrightarrow>
            fst (top_level_exports m cc pk sk bin swk ! i) = Returns None \<longrightarrow>
            Serialize this
              = (Some (Error (snd (snd (top_level_exports m cc pk sk bin swk ! i)))),
                 this\<lparr>buffers := fold assign_result
                     (take (Suc i) (top_level_exports m cc pk sk bin swk)) (buffers this)\<rparr>))
         \<and> ((\<forall>x\<in>set (top_level_exports m cc pk sk bin swk). \<exists>v. fst x = Returns (Some v)) \<longrightarrow>
             (\<forall>k\<in>set (BTKeyMap_keys m bin). \<exists>bs sw.
                SerializeBinFHERefreshKeyToBuffer m (fst (BTKeyMap_get m bin k)) = Returns (Some bs)
                \<and> SerializeBinFHESwitchingKeyToBuffer m (snd (BTKeyMap_get m bin k))
                    = Returns (Some sw)) \<longrightarrow>
             SerializeSeedSeqVector m (BTKeyMap_keys m bin) = Returns None \<longrightarrow>
             fst (Serialize this) = Some (Error ''Exception writing indices to buffer''))
         \<and> (fst (Serialize this) = None \<longrightarrow> fully_populated (buffers (snd (Serialize this))))"
proof (intro conjI allI impI)
  fix i
  assume "i < length (top_level_exports m cc pk sk bin swk)"
    and "\<forall>j<i. \<exists>v. fst (top_level_exports m cc pk sk bin swk ! j) = Returns (Some v)"
    and "fst (top_level_exports m cc pk sk bin swk ! i) = Returns None"
  then have "store_exports (top_level_exports m cc pk sk bin swk) (buffers this)
      = (Some (Error (snd (snd (top_level_exports m cc pk sk bin swk ! i)))),
         fold assign_result (take (Suc i) (top_level_exports m cc pk sk bin swk)) (buffers this))"
    by (rule store_exports_fail_fast)
  then show "Serialize this
      = (Some (Error (snd (snd (top_level_exports m cc pk sk bin swk ! i)))),
         this\<lparr>buffers := fold assign_result
             (take (Suc i) (top_level_exports m cc pk sk bin swk)) (buffers this)\<rparr>)"
    by (simp add: Serialize_initialised [OF assms] Serialize_buffers_def)
next
  let ?xs = "top_level_exports m cc pk sk bin swk"
  let ?b = "fold assign_result ?xs (buffers this)"
  assume all: "\<forall>x\<in>set ?xs. \<exists>v. fst x = Returns (Some v)"
    and keys: "\<forall>k\<in>set (BTKeyMap_keys m bin). \<exists>bs sw.
        SerializeBinFHERefreshKeyToBuffer m (fst (BTKeyMap_get m bin k)) = Returns (Some bs)
        \<and> SerializeBinFHESwitchingKeyToBuffer m (snd (BTKeyMap_get m bin k)) = Returns (Some sw)"
    and idx: "SerializeSeedSeqVector m (BTKeyMap_keys m bin) = Returns None"
  have top: "store_exports ?xs (buffers this) = (None, ?b)"
    using all by (rule store_exports_all)
  obtain indices b' where loop:
    "serialize_key_map m bin (BTKeyMap_keys m bin) [] ?b = (None, indices, b')"
    using serialize_key_map_succeeds [OF keys, of "[]" ?b]
    by (cases "serialize_key_map m bin (BTKeyMap_keys m bin) [] ?b") auto
  from serialize_key_map_result [OF loop] have "indices = BTKeyMap_keys m bin"
    by simp
  with idx have "store_export (index_export m indices) b'
      = (Some (Error ''Exception writing indices to buffer''), b'\<lparr>keyIndexBuffer := None\<rparr>)"
    by (simp add: index_export_def store_export_None)
  with top loop show "fst (Serialize this) = Some (Error ''Exception writing indices to buffer'')"
    by (simp add: Serialize_initialised [OF assms] Serialize_buffers_def)
next
  assume "fst (Serialize this) = None"
  then show "fully_populated (buffers (snd (Serialize this)))"
    by (rule Serialize_success_populated)
qed

theorem Serialize_fail_fast_witness:
  "fst (Serialize (SchemeSwitchingDataSerializer
          ((loopback [7])\<lparr>SerializePublicKeyToBuffer := \<lambda>pk. Returns None\<rparr>)))
     = Some (Error ''Exception writing publicKey to buffer'')
   \<and> fst (Serialize (SchemeSwitchingDataSerializer
          ((loopback [7])\<lparr>SerializeSeedSeqVector := \<lambda>indices. Returns None\<rparr>)))
     = Some (Error ''Exception writing indices to buffer'')
   \<and> fst (Serialize (SchemeSwitchingDataSerializer (loopback [7]))) = None
   \<and> fully_populated (buffers (snd (Serialize (SchemeSwitchingDataSerializer (loopback [7])))))"
proof -
  let ?e = "(loopback [7])\<lparr>SerializePublicKeyToBuffer := \<lambda>pk. Returns None\<rparr>"
  let ?f = "(loopback [7])\<lparr>SerializeSeedSeqVector := \<lambda>indices. Returns None\<rparr>"
  have e: "module (SchemeSwitchingDataSerializer ?e) = Some ?e"
    and f: "module (SchemeSwitchingDataSerializer ?f) = Some ?f"
    and g: "module (SchemeSwitchingDataSerializer (loopback [7])) = Some (loopback [7])"
    and fields: "cryptoContext (SchemeSwitchingDataSerializer m) = Some 1"
      "publicKey (SchemeSwitchingDataSerializer m) = Some 2"
      "secretKey (SchemeSwitchingDataSerializer m) = Some 3"
      "binFHECryptoContext (SchemeSwitchingDataSerializer m) = Some 4"
      "FHEWtoCKKSSwitchKey (SchemeSwitchingDataSerializer m) = Some 5" for m
    by (simp_all add: SchemeSwitchingDataSerializer_def)
  have "fst (Serialize (SchemeSwitchingDataSerializer ?e))
      = Some (Error ''Exception writing publicKey to buffer'')"
    using Serialize_fail_fast [OF e fields, THEN conjunct1, rule_format, of 1]
    by (simp add: top_level_exports_def loopback_def write_handle_def)
  moreover have "fst (Serialize (SchemeSwitchingDataSerializer ?f))
      = Some (Error ''Exception writing indices to buffer'')"
    using Serialize_fail_fast [OF f fields, THEN conjunct2, THEN conjunct1]
    by (simp add: top_level_exports_def loopback_def write_handle_def)
  moreover have ok: "fst (Serialize (SchemeSwitchingDataSerializer (loopback [7]))) = None"
    by (simp add: run_Serialize)
  moreover have
    "fully_populated (buffers (snd (Serialize (SchemeSwitchingDataSerializer (loopback [7])))))"
    using Serialize_fail_fast [OF g fields, THEN conjunct2, THEN conjunct2] ok by simp
  ultimately show ?thesis
    by simp
qed

text \<open>
  Claim C5. After \<open>Serialize\<close> succeeds on a bundle created empty, the indices keyed in
  \<open>EvalKeyMappings\<close> are, in order, the indices the engine reported, and \<open>keyIndexBuffer\<close>
  is the engine's serialization of that same list; the engine's key map reports each
  index once, so no index appears twice.
\<close>

theorem Serialize_index_integrity:
  assumes ok: "fst (Serialize this) = None"
    and m: "module this = Some m"
    and bin: "binFHECryptoContext this = Some bin"
    and fresh: "EvalKeyMappings (buffers this) = []"
    and uniq: "distinct (BTKeyMap_keys m bin)"
  shows "map fst (EvalKeyMappings (buffers (snd (Serialize this)))) = BTKeyMap_keys m bin
         \<and> (\<exists>ib. SerializeSeedSeqVector m (BTKeyMap_keys m bin) = Returns (Some ib)
                \<and> keyIndexBuffer (buffers (snd (Serialize this))) = Some ib)
         \<and> distinct (map fst (EvalKeyMappings (buffers (snd (Serialize this)))))"
proof -
  from ok m bin obtain cc pk sk swk where fields:
    "cryptoContext this = Some cc" "publicKey this = Some pk" "secretKey this = Some sk"
    "FHEWtoCKKSSwitchKey this = Some swk"
    by (auto simp: Serialize_def split: option.splits)
  let ?xs = "top_level_exports m cc pk sk bin swk"
  note unfold = Serialize_initialised [OF m fields(1) fields(2) fields(3) bin fields(4)]
  obtain r1 b1 where top: "store_exports ?xs (buffers this) = (r1, b1)"
    by (cases "store_exports ?xs (buffers this)")
  have r1: "r1 = None"
    using ok top by (cases r1) (simp_all add: unfold Serialize_buffers_def)
  have b1: "EvalKeyMappings b1 = []"
    using store_exports_EvalKeyMappings [OF top_level_exports_EvalKeyMappings, of m cc pk sk bin swk "buffers this"]
      top fresh by simp
  obtain r2 indices b2 where loop:
    "serialize_key_map m bin (BTKeyMap_keys m bin) [] b1 = (r2, indices, b2)"
    by (cases "serialize_key_map m bin (BTKeyMap_keys m bin) [] b1")
  have r2: "r2 = None"
    using ok top r1 loop by (cases r2) (simp_all add: unfold Serialize_buffers_def)
  from serialize_key_map_result [OF loop [unfolded r2]] b1
  have indices: "indices = BTKeyMap_keys m bin"
    and pairs: "map fst (EvalKeyMappings b2) = BTKeyMap_keys m bin"
    by simp_all
  have last: "Serialize this
      = (case store_export (index_export m (BTKeyMap_keys m bin)) b2 of
           (r, b) \<Rightarrow> (r, this\<lparr>buffers := b\<rparr>))"
    using top r1 loop r2 indices by (simp add: unfold Serialize_buffers_def)
  from ok last obtain ib where ib:
    "SerializeSeedSeqVector m (BTKeyMap_keys m bin) = Returns (Some ib)"
    by (auto simp: index_export_def store_export_def split: call.splits if_splits)
  with last have "Serialize this = (None, this\<lparr>buffers := b2\<lparr>keyIndexBuffer := Some ib\<rparr>\<rparr>)"
    by (simp add: index_export_def store_export_Some)
  with pairs ib uniq show ?thesis
    by simp
qed

theorem Serialize_index_integrity_witness:
  "map fst (EvalKeyMappings (buffers (snd (Serialize (SchemeSwitchingDataSerializer
      (loopback [5, 2])))))) = [5, 2]
   \<and> keyIndexBuffer (buffers (snd (Serialize (SchemeSwitchingDataSerializer
      (loopback [5, 2]))))) = Some [5, 2]"
proof -
  let ?s = "SchemeSwitchingDataSerializer (loopback [5, 2])"
  have ok: "fst (Serialize ?s) = None"
    by (simp add: run_Serialize)
  have m: "module ?s = Some (loopback [5, 2])"
    and bin: "binFHECryptoContext ?s = Some 4"
    and fresh: "EvalKeyMappings (buffers ?s) = []"
    by (simp_all add: SchemeSwitchingDataSerializer_def DataAndLocation_init_def buffers_init_def)
  have uniq: "distinct (BTKeyMap_keys (loopback [5, 2]) 4)"
    by (simp add: loopback_def)
  from Serialize_index_integrity [OF ok m bin fresh uniq] show ?thesis
    by (simp add: loopback_def)
qed

section \<open>Reconstruction\<close>

lemma awaited_Inl [simp]: "awaited (Inl e) w k = (Some e, w)"
  by (simp add: awaited_def)

lemma awaited_Inr [simp]: "awaited (Inr a) w k = k a w"
  by (simp add: awaited_def)

lemma deserializeFile_missing:
  "z f = None \<Longrightarrow> deserializeFile z f d = Inl (Error (''File '' @ f @ '' not found in the zip''))"
  by (simp add: deserializeFile_def)

lemma rethrow_is_Error: "\<exists>msg. rethrow m e = Error msg"
  by (cases e) (simp_all add: rethrow_def)

lemma deserialize_with_module:
  "module (self w) = Some m \<Longrightarrow>
   deserialize z w = (case deserialize_try m z w of
                        (None, w') \<Rightarrow> (None, w')
                      | (Some error, w') \<Rightarrow> (Some (rethrow m error), w'))"
  by (simp add: deserialize_def)

lemma deserialize_try_no_context:
  "deserializeFile z cryptoContextFile (DeserializeCryptoContextFromBuffer m) = Inl e \<Longrightarrow>
   deserialize_try m z w = (Some e, w)"
  by (simp add: deserialize_try_def)

lemma deserialize_try_no_publicKey:
  "deserializeFile z cryptoContextFile (DeserializeCryptoContextFromBuffer m) = Inr cc \<Longrightarrow>
   deserializeFile z pubKeyFile (DeserializePublicKeyFromBuffer m) = Inl e \<Longrightarrow>
   deserialize_try m z w = (Some e, w\<lparr>self := (self w)\<lparr>cryptoContext := Some cc\<rparr>\<rparr>)"
  by (simp add: deserialize_try_def)

lemma deserialize_try_no_secretKey:
  "deserializeFile z cryptoContextFile (DeserializeCryptoContextFromBuffer m) = Inr cc \<Longrightarrow>
   deserializeFile z pubKeyFile (DeserializePublicKeyFromBuffer m) = Inr pk \<Longrightarrow>
   deserializeFile z secretKeyFile (DeserializePrivateKeyFromBuffer m) = Inl e \<Longrightarrow>
   deserialize_try m z w
     = (Some e, w\<lparr>self := (self w)\<lparr>cryptoContext := Some cc, publicKey := Some pk\<rparr>\<rparr>)"
  by (simp add: deserialize_try_def)

lemma deserialize_mandatory_missing_fails:
  assumes m: "module (self w) = Some m"
    and missing: "z cryptoContextFile = None \<or> z pubKeyFile = None \<or> z secretKeyFile = None"
  shows "fst (deserialize z w) \<noteq> None \<and> effects (snd (deserialize z w)) = effects w"
proof (cases "deserializeFile z cryptoContextFile (DeserializeCryptoContextFromBuffer m)")
  case (Inl e)
  then show ?thesis
    by (simp add: deserialize_with_module [OF m] deserialize_try_no_context)
next
  case cc: (Inr cc)
  then have ctx: "z cryptoContextFile \<noteq> None"
    by (auto simp: deserializeFile_def split: option.splits)
  show ?thesis
  proof (cases "deserializeFile z pubKeyFile (DeserializePublicKeyFromBuffer m)")
    case (Inl e)
    with cc show ?thesis
      by (simp add: deserialize_with_module [OF m] deserialize_try_no_publicKey)
  next
    case pk: (Inr pk)
    then have "z pubKeyFile \<noteq> None"
      by (auto simp: deserializeFile_def split: option.splits)
    with ctx missing have "z secretKeyFile = None"
      by auto
    then have "deserializeFile z secretKeyFile (DeserializePrivateKeyFromBuffer m)
        = Inl (Error (''File '' @ secretKeyFile @ '' not found in the zip''))"
      by (rule deserializeFile_missing)
    then show ?thesis
      using cc pk
      by (simp add: deserialize_with_module [OF m] deserialize_try_no_secretKey)
  qed
qed

text \<open>The definitions to unfold when \<open>deserialize\<close> is run on the concrete engine.\<close>

lemmas run_deserialize =
  deserialize_def deserialize_try_def deserializeFile_def awaited_def and_then_def
  install_if_present_def rethrow_def error_toString_def copyVecToJs_def
  SchemeSwitchingDataDeserializer_def loopback_def read_handle_def

lemmas file_names =
  cryptoContextFile_def pubKeyFile_def secretKeyFile_def multKeyFile_def rotKeyFile_def
  FHEWtoCKKSSwitchKeyFile_def binFHECryptoContextFile_def binFHEBootRefreshKeyFile_def
  binFHEBootRotKeyFile_def keyIndexFile_def baseRefreshKeyFile_def baseSwitchingKeyFile_def

text \<open>
  Claim C3, as the code has it. A bundle whose archive lacks the context, the public key
  or the secret key is never reconstructed with success, and no engine object is changed
  on the way. The steps run in a strict order, so the error names the absent entry when
  every mandatory entry before it was present and accepted by the engine; an earlier
  entry that the engine rejects raises its own error first. When the context entry is
  absent the first step fails and the deserializer is left exactly as it was.
\<close>

theorem deserialize_missing_mandatory:
  assumes m: "module (self w) = Some m"
  shows "(z cryptoContextFile = None \<longrightarrow>
            deserialize z w
              = (Some (Error ''Error: File cryptocontext.txt not found in the zip''), w))
         \<and> (z pubKeyFile = None \<longrightarrow>
            (\<exists>cc. deserializeFile z cryptoContextFile (DeserializeCryptoContextFromBuffer m)
                    = Inr cc) \<longrightarrow>
            fst (deserialize z w) = Some (Error ''Error: File key_pub.txt not found in the zip''))
         \<and> (z secretKeyFile = None \<longrightarrow>
            (\<exists>cc. deserializeFile z cryptoContextFile (DeserializeCryptoContextFromBuffer m)
                    = Inr cc) \<longrightarrow>
            (\<exists>pk. deserializeFile z pubKeyFile (DeserializePublicKeyFromBuffer m) = Inr pk) \<longrightarrow>
            fst (deserialize z w)
              = Some (Error ''Error: File key_secret.txt not found in the zip''))
         \<and> (z cryptoContextFile = None \<or> z pubKeyFile = None \<or> z secretKeyFile = None \<longrightarrow>
            fst (deserialize z w) \<noteq> None \<and> effects (snd (deserialize z w)) = effects w)"
proof -
  have c1: "z cryptoContextFile = None \<longrightarrow>
      deserialize z w
        = (Some (Error ''Error: File cryptocontext.txt not found in the zip''), w)"
  proof
    assume "z cryptoContextFile = None"
    then have "deserializeFile z cryptoContextFile (DeserializeCryptoContextFromBuffer m)
        = Inl (Error (''File '' @ cryptoContextFile @ '' not found in the zip''))"
      by (rule deserializeFile_missing)
    then show "deserialize z w
        = (Some (Error ''Error: File cryptocontext.txt not found in the zip''), w)"
      by (simp add: deserialize_with_module [OF m] deserialize_try_no_context rethrow_def
          error_toString_def cryptoContextFile_def)
  qed
  have c2: "z pubKeyFile = None \<longrightarrow>
      (\<exists>cc. deserializeFile z cryptoContextFile (DeserializeCryptoContextFromBuffer m)
              = Inr cc) \<longrightarrow>
      fst (deserialize z w) = Some (Error ''Error: File key_pub.txt not found in the zip'')"
  proof (intro impI)
    assume "z pubKeyFile = None"
      and "\<exists>cc. deserializeFile z cryptoContextFile (DeserializeCryptoContextFromBuffer m)
                  = Inr cc"
    then obtain cc where
      "deserializeFile z cryptoContextFile (DeserializeCryptoContextFromBuffer m) = Inr cc"
      and "deserializeFile z pubKeyFile (DeserializePublicKeyFromBuffer m)
           = Inl (Error (''File '' @ pubKeyFile @ '' not found in the zip''))"
      by (auto simp: deserializeFile_missing)
    then show "fst (deserialize z w)
        = Some (Error ''Error: File key_pub.txt not found in the zip'')"
      by (simp add: deserialize_with_module [OF m] deserialize_try_no_publicKey rethrow_def
          error_toString_def pubKeyFile_def)
  qed
  have c3: "z secretKeyFile = None \<longrightarrow>
      (\<exists>cc. deserializeFile z cryptoContextFile (DeserializeCryptoContextFromBuffer m)
              = Inr cc) \<longrightarrow>
      (\<exists>pk. deserializeFile z pubKeyFile (DeserializePublicKeyFromBuffer m) = Inr pk) \<longrightarrow>
      fst (deserialize z w) = Some (Error ''Error: File key_secret.txt not found in the zip'')"
  proof (intro impI)
    assume "z secretKeyFile = None"
      and "\<exists>cc. deserializeFile z cryptoContextFile (DeserializeCryptoContextFromBuffer m)
                  = Inr cc"
      and "\<exists>pk. deserializeFile z pubKeyFile (DeserializePublicKeyFromBuffer m) = Inr pk"
    then obtain cc pk where
      "deserializeFile z cryptoContextFile (DeserializeCryptoContextFromBuffer m) = Inr cc"
      and "deserializeFile z pubKeyFile (DeserializePublicKeyFromBuffer m) = Inr pk"
      and "deserializeFile z secretKeyFile (DeserializePrivateKeyFromBuffer m)
           = Inl (Error (''File '' @ secretKeyFile @ '' not found in the zip''))"
      by (auto simp: deserializeFile_missing)
    then show "fst (deserialize z w)
        = Some (Error ''Error: File key_secret.txt not found in the zip'')"
      by (simp add: deserialize_with_module [OF m] deserialize_try_no_secretKey rethrow_def
          error_toString_def secretKeyFile_def)
  qed
  have c4: "z cryptoContextFile = None \<or> z pubKeyFile = None \<or> z secretKeyFile = None \<longrightarrow>
      fst (deserialize z w) \<noteq> None \<and> effects (snd (deserialize z w)) = effects w"
    using deserialize_mandatory_missing_fails [OF m] by (intro impI)
  show ?thesis
    by (rule conjI [OF c1 conjI [OF c2 conjI [OF c3 c4]]])
qed

theorem deserialize_missing_mandatory_witness:
  "deserialize Map.empty (SchemeSwitchingDataDeserializer (loopback [7]))
     = (Some (Error ''Error: File cryptocontext.txt not found in the zip''),
        SchemeSwitchingDataDeserializer (loopback [7]))
   \<and> fst (deserialize [cryptoContextFile \<mapsto> [1]]
          (SchemeSwitchingDataDeserializer (loopback [7])))
       = Some (Error ''Error: File key_pub.txt not found in the zip'')
   \<and> fst (deserialize [cryptoContextFile \<mapsto> [1], pubKeyFile \<mapsto> [2]]
          (SchemeSwitchingDataDeserializer (loopback [7])))
       = Some (Error ''Error: File key_secret.txt not found in the zip'')"
proof -
  let ?w = "SchemeSwitchingDataDeserializer (loopback [7])"
  have m: "module (self ?w) = Some (loopback [7])"
    by (simp add: SchemeSwitchingDataDeserializer_def)
  have "deserialize Map.empty ?w
      = (Some (Error ''Error: File cryptocontext.txt not found in the zip''), ?w)"
    using deserialize_missing_mandatory [OF m, of Map.empty] by simp
  moreover have "fst (deserialize [cryptoContextFile \<mapsto> [1]] ?w)
      = Some (Error ''Error: File key_pub.txt not found in the zip'')"
    using deserialize_missing_mandatory [OF m, of "[cryptoContextFile \<mapsto> [1]]"]
    by (simp add: deserializeFile_def loopback_def read_handle_def file_names)
  moreover have "fst (deserialize [cryptoContextFile \<mapsto> [1], pubKeyFile \<mapsto> [2]] ?w)
      = Some (Error ''Error: File key_secret.txt not found in the zip'')"
    using deserialize_missing_mandatory
      [OF m, of "[cryptoContextFile \<mapsto> [1], pubKeyFile \<mapsto> [2]]"]
    by (simp add: deserializeFile_def loopback_def read_handle_def file_names)
  ultimately show ?thesis
    by simp
qed

text \<open>
  Claim C3 as stated asks for an error that names the missing entry for every bundle with
  one missing. In this archive the public key is missing and the context entry is present
  but is not a serialized context: the error names the context file.
\<close>

theorem deserialize_error_names_earlier_entry:
  "[cryptoContextFile \<mapsto> [1, 1], secretKeyFile \<mapsto> [3]] pubKeyFile = None
   \<and> fst (deserialize [cryptoContextFile \<mapsto> [1, 1], secretKeyFile \<mapsto> [3]]
          (SchemeSwitchingDataDeserializer (loopback [7])))
       = Some (Error ''Error: Error deserializing from cryptocontext.txt'')"
  by (simp add: run_deserialize file_names)

section \<open>Optional keys\<close>

lemma copyVecToJs_copy: "copyVecToJs vec = vec"
  by (simp add: copyVecToJs_def map_nth)

lemma install_if_present_returns:
  assumes "z f = None \<or> (\<exists>b. z f = Some b \<and> install b = Returns ())"
  shows "install_if_present z f install eff w
         = (None, w\<lparr>effects := effects w @ (case z f of None \<Rightarrow> [] | Some b \<Rightarrow> [eff b])\<rparr>)"
  using assms by (auto simp: install_if_present_def)

lemma load_indexed_keys_accepted:
  assumes "\<forall>i\<in>set indices.
      (\<exists>bs. deserializeFile z (createMapFileNameDeserialize i baseRefreshKeyFile)
               (DeserializeBinFHERefreshKeyFromBuffer m) = Inr bs)
      \<and> (\<exists>ks. deserializeFile z (createMapFileNameDeserialize i baseSwitchingKeyFile)
               (DeserializeBinFHESwitchingKeyFromBuffer m) = Inr ks)"
  shows "load_indexed_keys m z bin indices w
         = (None, w\<lparr>effects := effects w @ indexed_key_effects m z bin indices\<rparr>)"
  using assms
proof (induction indices arbitrary: w)
  case Nil
  then show ?case by (simp add: indexed_key_effects_def)
next
  case (Cons i indices)
  from Cons.prems obtain bs ks where
    "deserializeFile z (createMapFileNameDeserialize i baseRefreshKeyFile)
       (DeserializeBinFHERefreshKeyFromBuffer m) = Inr bs"
    "deserializeFile z (createMapFileNameDeserialize i baseSwitchingKeyFile)
       (DeserializeBinFHESwitchingKeyFromBuffer m) = Inr ks"
    by auto
  moreover have "load_indexed_keys m z bin indices w'
      = (None, w'\<lparr>effects := effects w' @ indexed_key_effects m z bin indices\<rparr>)" for w'
    using Cons.IH Cons.prems by simp
  ultimately show ?case
    by (simp add: indexed_key_effects_def)
qed

text \<open>The bundles that the concrete engine serializes, and their archives.\<close>

lemma decimal_7: "decimal 7 = ''7''"
  by code_simp

lemma createDownloadableFile_nested:
  "createDownloadableFile this
   = fold addKeyMappingToZip (EvalKeyMappings (buffers this))
      (addBufferToZip (keyIndexBuffer (buffers this)) keyIndexFile
      (addBufferToZip (binFHEBootRotKeyBuffer (buffers this)) binFHEBootRotKeyFile
      (addBufferToZip (binFHEBootRefreshKeyBuffer (buffers this)) binFHEBootRefreshKeyFile
      (addBufferToZip (binfheCryptoContextBuffer (buffers this)) binFHECryptoContextFile
      (addBufferToZip (FHEWtoCKKSSwitchKeyBuffer (buffers this)) FHEWtoCKKSSwitchKeyFile
      (addBufferToZip (automorphismKeyBuffer (buffers this)) rotKeyFile
      (addBufferToZip (evalMultKeyBuffer (buffers this)) multKeyFile
      (addBufferToZip (secretKeyBuffer (buffers this)) secretKeyFile
      (addBufferToZip (publicKeyBuffer (buffers this)) pubKeyFile
      (addBufferToZip (cryptoContextBuffer (buffers this)) cryptoContextFile
         Map.empty))))))))))"
  by (simp add: createDownloadableFile_def Let_def)

lemma serialized_7:
  "buffers (snd (Serialize (SchemeSwitchingDataSerializer (loopback [7]))))
   = \<lparr>cryptoContextBuffer = Some [1], publicKeyBuffer = Some [2],
      secretKeyBuffer = Some [3], evalMultKeyBuffer = Some [1],
      automorphismKeyBuffer = Some [1], FHEWtoCKKSSwitchKeyBuffer = Some [5],
      binfheCryptoContextBuffer = Some [4], binFHEBootRefreshKeyBuffer = Some [5],
      binFHEBootRotKeyBuffer = Some [6], keyIndexBuffer = Some [7],
      EvalKeyMappings = [(7, [17], [27])]\<rparr>"
  by (simp add: run_Serialize)

lemma packed_7:
  "createDownloadableFile (snd (Serialize (SchemeSwitchingDataSerializer (loopback [7]))))
   = [cryptoContextFile \<mapsto> [1], pubKeyFile \<mapsto> [2], secretKeyFile \<mapsto> [3],
      multKeyFile \<mapsto> [1], rotKeyFile \<mapsto> [1], FHEWtoCKKSSwitchKeyFile \<mapsto> [5],
      binFHECryptoContextFile \<mapsto> [4], binFHEBootRefreshKeyFile \<mapsto> [5],
      binFHEBootRotKeyFile \<mapsto> [6], keyIndexFile \<mapsto> [7],
      createMapFileNameDeserialize 7 baseRefreshKeyFile \<mapsto> [17],
      createMapFileNameDeserialize 7 baseSwitchingKeyFile \<mapsto> [27]]"
  by (simp add: createDownloadableFile_nested serialized_7 addBufferToZip_def
      addKeyMappingToZip_def createMapFileNameDeserialize_def file_names)

lemma serialized_empty:
  "buffers (snd (Serialize (SchemeSwitchingDataSerializer (loopback []))))
   = \<lparr>cryptoContextBuffer = Some [1], publicKeyBuffer = Some [2],
      secretKeyBuffer = Some [3], evalMultKeyBuffer = Some [1],
      automorphismKeyBuffer = Some [1], FHEWtoCKKSSwitchKeyBuffer = Some [5],
      binfheCryptoContextBuffer = Some [4], binFHEBootRefreshKeyBuffer = Some [5],
      binFHEBootRotKeyBuffer = Some [6], keyIndexBuffer = Some [],
      EvalKeyMappings = []\<rparr>"
  by (simp add: run_Serialize)

lemma packed_empty:
  "createDownloadableFile (snd (Serialize (SchemeSwitchingDataSerializer (loopback []))))
   = [cryptoContextFile \<mapsto> [1], pubKeyFile \<mapsto> [2], secretKeyFile \<mapsto> [3],
      multKeyFile \<mapsto> [1], rotKeyFile \<mapsto> [1], FHEWtoCKKSSwitchKeyFile \<mapsto> [5],
      binFHECryptoContextFile \<mapsto> [4], binFHEBootRefreshKeyFile \<mapsto> [5],
      binFHEBootRotKeyFile \<mapsto> [6], keyIndexFile \<mapsto> []]"
  by (simp add: createDownloadableFile_nested serialized_empty addBufferToZip_def file_names)

text \<open>
  Claim C8. The eval-mult and rotation key entries are optional. When every mandatory
  entry is present and accepted by the engine, and each of the two optional entries is
  either absent or installed by the engine without an exception, reconstruction succeeds:
  each optional key is installed on the reconstructed context exactly when its entry is
  present, and all later steps run. The result is the whole state of the successful run.
\<close>

theorem deserialize_optional_keys:
  assumes m: "module (self w) = Some m"
    and cc: "deserializeFile z cryptoContextFile (DeserializeCryptoContextFromBuffer m) = Inr cc"
    and pk: "deserializeFile z pubKeyFile (DeserializePublicKeyFromBuffer m) = Inr pk"
    and sk: "deserializeFile z secretKeyFile (DeserializePrivateKeyFromBuffer m) = Inr sk"
    and swk: "deserializeFile z FHEWtoCKKSSwitchKeyFile (DeserializeSwkFC m) = Inr swk"
    and bin: "deserializeFile z binFHECryptoContextFile
                (DeserializeBinFHECryptoContextFromBuffer m) = Inr bin"
    and bs: "deserializeFile z binFHEBootRefreshKeyFile
               (DeserializeBinFHERefreshKeyFromBuffer m) = Inr BSkey"
    and ks: "deserializeFile z binFHEBootRotKeyFile
               (DeserializeBinFHESwitchingKeyFromBuffer m) = Inr KSkey"
    and vec: "deserializeFile z keyIndexFile (DeserializeSeedSeqVector m) = Inr vec"
    and nonempty: "vec \<noteq> []"
    and indexed: "\<forall>i\<in>set vec.
      (\<exists>bs. deserializeFile z (createMapFileNameDeserialize i baseRefreshKeyFile)
               (DeserializeBinFHERefreshKeyFromBuffer m) = Inr bs)
      \<and> (\<exists>ks. deserializeFile z (createMapFileNameDeserialize i baseSwitchingKeyFile)
               (DeserializeBinFHESwitchingKeyFromBuffer m) = Inr ks)"
    and mult: "z multKeyFile = None
      \<or> (\<exists>b. z multKeyFile = Some b \<and> DeserializeEvalMultKeyFromBuffer m cc b = Returns ())"
    and rot: "z rotKeyFile = None
      \<or> (\<exists>b. z rotKeyFile = Some b
              \<and> DeserializeEvalAutomorphismKeyFromBuffer m cc b = Returns ())"
  shows "deserialize z w
         = (None,
            w\<lparr>self := (self w)\<lparr>cryptoContext := Some cc, publicKey := Some pk,
                  secretKey := Some sk, FHEWtoCKKSSwitchKey := Some swk,
                  binFHECryptoContext := Some bin\<rparr>,
              effects := effects w
                @ (case z multKeyFile of None \<Rightarrow> [] | Some b \<Rightarrow> [EvalMultKeyInstalled cc b])
                @ (case z rotKeyFile of None \<Rightarrow> []
                   | Some b \<Rightarrow> [EvalAutomorphismKeyInstalled cc b])
                @ [SetSwkFC cc swk, BTKeyLoad bin BSkey KSkey]
                @ indexed_key_effects m z bin vec
                @ [SetBinCCForSchemeSwitch cc bin]\<rparr>)"
proof -
  note install =
    install_if_present_returns
      [of z multKeyFile "DeserializeEvalMultKeyFromBuffer m cc" "EvalMultKeyInstalled cc",
       OF mult]
    install_if_present_returns
      [of z rotKeyFile "DeserializeEvalAutomorphismKeyFromBuffer m cc"
         "EvalAutomorphismKeyInstalled cc", OF rot]
  have "deserialize_try m z w
      = (None,
            w\<lparr>self := (self w)\<lparr>cryptoContext := Some cc, publicKey := Some pk,
                  secretKey := Some sk, FHEWtoCKKSSwitchKey := Some swk,
                  binFHECryptoContext := Some bin\<rparr>,
              effects := effects w
                @ (case z multKeyFile of None \<Rightarrow> [] | Some b \<Rightarrow> [EvalMultKeyInstalled cc b])
                @ (case z rotKeyFile of None \<Rightarrow> []
                   | Some b \<Rightarrow> [EvalAutomorphismKeyInstalled cc b])
                @ [SetSwkFC cc swk, BTKeyLoad bin BSkey KSkey]
                @ indexed_key_effects m z bin vec
                @ [SetBinCCForSchemeSwitch cc bin]\<rparr>)"
    using nonempty
    by (simp add: deserialize_try_def cc pk sk swk bin bs ks vec install copyVecToJs_copy
        load_indexed_keys_accepted [OF indexed])
  then show ?thesis
    by (simp add: deserialize_with_module [OF m])
qed

theorem deserialize_optional_keys_witness:
  "deserialize
     ((createDownloadableFile (snd (Serialize (SchemeSwitchingDataSerializer (loopback [7])))))
        (multKeyFile := None))
     (SchemeSwitchingDataDeserializer (loopback [7]))
   = (None,
      \<lparr>self = DataAndLocation_init
         \<lparr>cryptoContext := Some 1, publicKey := Some 2, secretKey := Some 3,
          binFHECryptoContext := Some 4, FHEWtoCKKSSwitchKey := Some 5,
          module := Some (loopback [7])\<rparr>,
       effects = [EvalAutomorphismKeyInstalled 1 [1], SetSwkFC 1 5, BTKeyLoad 4 5 6,
                  BTKeyMapLoadSingleElement 4 7 17 27, SetBinCCForSchemeSwitch 1 4]\<rparr>)"
proof -
  define m where "m = loopback [7]"
  define z where "z = (createDownloadableFile (snd (Serialize (SchemeSwitchingDataSerializer m))))
                        (multKeyFile := None)"
  define w where "w = SchemeSwitchingDataDeserializer m"
  have entries:
    "z cryptoContextFile = Some [1]" "z pubKeyFile = Some [2]" "z secretKeyFile = Some [3]"
    "z multKeyFile = None" "z rotKeyFile = Some [1]" "z FHEWtoCKKSSwitchKeyFile = Some [5]"
    "z binFHECryptoContextFile = Some [4]" "z binFHEBootRefreshKeyFile = Some [5]"
    "z binFHEBootRotKeyFile = Some [6]" "z keyIndexFile = Some [7]"
    "z (createMapFileNameDeserialize 7 baseRefreshKeyFile) = Some [17]"
    "z (createMapFileNameDeserialize 7 baseSwitchingKeyFile) = Some [27]"
    by (simp_all add: z_def m_def packed_7 createMapFileNameDeserialize_def decimal_7
        file_names)
  have engine:
    "DeserializeCryptoContextFromBuffer m = read_handle"
    "DeserializePublicKeyFromBuffer m = read_handle"
    "DeserializePrivateKeyFromBuffer m = read_handle"
    "DeserializeSwkFC m = read_handle"
    "DeserializeBinFHECryptoContextFromBuffer m = read_handle"
    "DeserializeBinFHERefreshKeyFromBuffer m = read_handle"
    "DeserializeBinFHESwitchingKeyFromBuffer m = read_handle"
    "DeserializeSeedSeqVector m = (\<lambda>buf. Returns (Some (map unat buf)))"
    "DeserializeEvalMultKeyFromBuffer m = (\<lambda>cc buf. Returns ())"
    "DeserializeEvalAutomorphismKeyFromBuffer m = (\<lambda>cc buf. Returns ())"
    by (simp_all add: m_def loopback_def)
  have m: "module (self w) = Some m"
    by (simp add: w_def SchemeSwitchingDataDeserializer_def)
  have cc: "deserializeFile z cryptoContextFile (DeserializeCryptoContextFromBuffer m) = Inr 1"
    and pk: "deserializeFile z pubKeyFile (DeserializePublicKeyFromBuffer m) = Inr 2"
    and sk: "deserializeFile z secretKeyFile (DeserializePrivateKeyFromBuffer m) = Inr 3"
    and swk: "deserializeFile z FHEWtoCKKSSwitchKeyFile (DeserializeSwkFC m) = Inr 5"
    and bin: "deserializeFile z binFHECryptoContextFile
                (DeserializeBinFHECryptoContextFromBuffer m) = Inr 4"
    and bs: "deserializeFile z binFHEBootRefreshKeyFile
               (DeserializeBinFHERefreshKeyFromBuffer m) = Inr 5"
    and ks: "deserializeFile z binFHEBootRotKeyFile
               (DeserializeBinFHESwitchingKeyFromBuffer m) = Inr 6"
    and vec: "deserializeFile z keyIndexFile (DeserializeSeedSeqVector m) = Inr [7]"
    and bs7: "deserializeFile z (createMapFileNameDeserialize 7 baseRefreshKeyFile)
               (DeserializeBinFHERefreshKeyFromBuffer m) = Inr 17"
    and ks7: "deserializeFile z (createMapFileNameDeserialize 7 baseSwitchingKeyFile)
               (DeserializeBinFHESwitchingKeyFromBuffer m) = Inr 27"
    by (simp_all add: deserializeFile_def entries engine read_handle_def)
  have nonempty: "[7::nat] \<noteq> []"
    by simp
  have indexed: "\<forall>i\<in>set [7].
      (\<exists>bs. deserializeFile z (createMapFileNameDeserialize i baseRefreshKeyFile)
               (DeserializeBinFHERefreshKeyFromBuffer m) = Inr bs)
      \<and> (\<exists>ks. deserializeFile z (createMapFileNameDeserialize i baseSwitchingKeyFile)
               (DeserializeBinFHESwitchingKeyFromBuffer m) = Inr ks)"
    using bs7 ks7 by simp
  have mult: "z multKeyFile = None
      \<or> (\<exists>b. z multKeyFile = Some b \<and> DeserializeEvalMultKeyFromBuffer m 1 b = Returns ())"
    by (simp add: entries)
  have rot: "z rotKeyFile = None
      \<or> (\<exists>b. z rotKeyFile = Some b
              \<and> DeserializeEvalAutomorphismKeyFromBuffer m 1 b = Returns ())"
    by (simp add: entries engine)
  from deserialize_optional_keys [OF m cc pk sk swk bin bs ks vec nonempty indexed mult rot]
  have "deserialize z w
      = (None,
         \<lparr>self = DataAndLocation_init
            \<lparr>cryptoContext := Some 1, publicKey := Some 2, secretKey := Some 3,
             binFHECryptoContext := Some 4, FHEWtoCKKSSwitchKey := Some 5,
             module := Some m\<rparr>,
          effects = [EvalAutomorphismKeyInstalled 1 [1], SetSwkFC 1 5, BTKeyLoad 4 5 6,
                     BTKeyMapLoadSingleElement 4 7 17 27, SetBinCCForSchemeSwitch 1 4]\<rparr>)"
    by (simp add: w_def SchemeSwitchingDataDeserializer_def indexed_key_effects_def
        bs7 ks7 entries)
  then show ?thesis
    by (simp only: z_def w_def m_def)
qed

section \<open>The empty bootstrap collection\<close>

lemma addBufferToZip_same:
  "fileName \<noteq> [] \<Longrightarrow> addBufferToZip (Some b) fileName jszip fileName = Some b"
  by (simp add: addBufferToZip_def)

lemma createDownloadableFile_keyIndexFile:
  assumes "EvalKeyMappings (buffers this) = []"
    and "keyIndexBuffer (buffers this) = Some ib"
  shows "createDownloadableFile this keyIndexFile = Some ib"
proof -
  have "keyIndexFile \<noteq> []"
    by (simp add: keyIndexFile_def)
  with assms show ?thesis
    by (simp add: createDownloadableFile_def Let_def addBufferToZip_same)
qed

lemma fold_assign_result_EvalKeyMappings:
  assumes "\<forall>x\<in>set xs. \<forall>v b. EvalKeyMappings (fst (snd x) v b) = EvalKeyMappings b"
  shows "EvalKeyMappings (fold assign_result xs b) = EvalKeyMappings b"
  using assms
proof (induction xs arbitrary: b)
  case Nil
  then show ?case by simp
next
  case (Cons x xs)
  obtain result assign message where x: "x = (result, assign, message)"
    by (cases x)
  have "EvalKeyMappings (assign_result x b) = EvalKeyMappings b"
    using Cons.prems x by (cases result) (simp_all add: assign_result_def)
  with Cons show ?case
    by simp
qed

lemma awaited_success:
  "fst (awaited r w k) = None \<Longrightarrow> \<exists>a. r = Inr a \<and> fst (k a w) = None"
  by (cases r) simp_all

lemma and_then_success:
  "fst (and_then r f) = None \<Longrightarrow> \<exists>s. r = (None, s) \<and> fst (f s) = None"
  by (cases r) (auto simp: and_then_def split: option.splits)

lemma deserialize_try_success_indices:
  assumes "fst (deserialize_try m z w) = None"
  shows "\<exists>vec. deserializeFile z keyIndexFile (DeserializeSeedSeqVector m) = Inr vec \<and> vec \<noteq> []"
  using assms unfolding deserialize_try_def Let_def
  by (auto dest!: awaited_success and_then_success simp: copyVecToJs_copy split: if_splits)

lemma deserialize_needs_indices:
  assumes "fst (deserialize z w) = None" and "module (self w) = Some m"
  shows "\<exists>vec. deserializeFile z keyIndexFile (DeserializeSeedSeqVector m) = Inr vec \<and> vec \<noteq> []"
proof -
  from assms have "fst (deserialize_try m z w) = None"
    by (auto simp: deserialize_def split: prod.splits option.splits)
  then show ?thesis
    by (rule deserialize_try_success_indices)
qed

text \<open>
  Whatever the other entries are, a bundle whose index list has no index is never
  reconstructed with success.
\<close>

lemma deserialize_without_indices_fails:
  assumes "module (self w) = Some m"
    and "deserializeFile z keyIndexFile (DeserializeSeedSeqVector m) = Inr []"
  shows "fst (deserialize z w) \<noteq> None"
  using deserialize_needs_indices [of z w m] assms by auto

text \<open>
  Claim C6. With no bootstrap entries, \<open>Serialize\<close> succeeds when the engine's exports
  return buffers: the loop does nothing and \<open>keyIndexBuffer\<close> is the engine's
  serialization of the empty index list, which may be a buffer of length zero. Packed
  into an archive and handed to the deserializer, that bundle passes the steps before the
  index list (their entries accepted by the engine), the recovered index list has no
  index, and reconstruction fails with the "No indices found" error.
\<close>

theorem empty_bootstrap_collection:
  assumes sm: "module this = Some m" and scc: "cryptoContext this = Some cc"
    and spk: "publicKey this = Some pk" and ssk: "secretKey this = Some sk"
    and sbin: "binFHECryptoContext this = Some bin"
    and sswk: "FHEWtoCKKSSwitchKey this = Some swk"
    and fresh: "EvalKeyMappings (buffers this) = []"
    and empty: "BTKeyMap_keys m bin = []"
    and exports: "\<forall>x\<in>set (top_level_exports m cc pk sk bin swk). \<exists>v. fst x = Returns (Some v)"
    and idx: "SerializeSeedSeqVector m [] = Returns (Some ib)"
    and z: "z = createDownloadableFile (snd (Serialize this))"
    and dm: "module (self w) = Some m'"
    and cc': "deserializeFile z cryptoContextFile (DeserializeCryptoContextFromBuffer m') = Inr cc'"
    and pk': "deserializeFile z pubKeyFile (DeserializePublicKeyFromBuffer m') = Inr pk'"
    and sk': "deserializeFile z secretKeyFile (DeserializePrivateKeyFromBuffer m') = Inr sk'"
    and swk': "deserializeFile z FHEWtoCKKSSwitchKeyFile (DeserializeSwkFC m') = Inr swk'"
    and bin': "deserializeFile z binFHECryptoContextFile
                 (DeserializeBinFHECryptoContextFromBuffer m') = Inr bin'"
    and bs': "deserializeFile z binFHEBootRefreshKeyFile
                (DeserializeBinFHERefreshKeyFromBuffer m') = Inr BSkey"
    and ks': "deserializeFile z binFHEBootRotKeyFile
                (DeserializeBinFHESwitchingKeyFromBuffer m') = Inr KSkey"
    and mult: "z multKeyFile = None
      \<or> (\<exists>b. z multKeyFile = Some b \<and> DeserializeEvalMultKeyFromBuffer m' cc' b = Returns ())"
    and rot: "z rotKeyFile = None
      \<or> (\<exists>b. z rotKeyFile = Some b
              \<and> DeserializeEvalAutomorphismKeyFromBuffer m' cc' b = Returns ())"
    and vec: "DeserializeSeedSeqVector m' ib = Returns (Some [])"
  shows "fst (Serialize this) = None
         \<and> keyIndexBuffer (buffers (snd (Serialize this))) = Some ib
         \<and> EvalKeyMappings (buffers (snd (Serialize this))) = []
         \<and> fst (deserialize z w)
             = Some (Error ''Error: Error deserializing from key_indices.txt. No indices found.'')"
proof -
  let ?xs = "top_level_exports m cc pk sk bin swk"
  have "store_exports ?xs (buffers this) = (None, fold assign_result ?xs (buffers this))"
    using exports by (rule store_exports_all)
  then have serialized: "Serialize this
      = (None, this\<lparr>buffers := (fold assign_result ?xs (buffers this))
                                   \<lparr>keyIndexBuffer := Some ib\<rparr>\<rparr>)"
    by (simp add: Serialize_initialised [OF sm scc spk ssk sbin sswk] Serialize_buffers_def
        empty index_export_def idx store_export_Some)
  have pairs: "EvalKeyMappings (fold assign_result ?xs (buffers this)) = []"
    using fold_assign_result_EvalKeyMappings [OF top_level_exports_EvalKeyMappings] fresh
    by simp
  have "z keyIndexFile = Some ib"
    unfolding z by (rule createDownloadableFile_keyIndexFile) (simp_all add: serialized pairs)
  with vec have none: "deserializeFile z keyIndexFile (DeserializeSeedSeqVector m') = Inr []"
    by (simp add: deserializeFile_def)
  note install =
    install_if_present_returns
      [of z multKeyFile "DeserializeEvalMultKeyFromBuffer m' cc'" "EvalMultKeyInstalled cc'",
       OF mult]
    install_if_present_returns
      [of z rotKeyFile "DeserializeEvalAutomorphismKeyFromBuffer m' cc'"
         "EvalAutomorphismKeyInstalled cc'", OF rot]
  have "fst (deserialize_try m' z w)
      = Some (Error (''Error deserializing from '' @ keyIndexFile @ ''. No indices found.''))"
    by (simp add: deserialize_try_def cc' pk' sk' swk' bin' bs' ks' none install
        copyVecToJs_copy)
  then obtain w' where "deserialize_try m' z w
      = (Some (Error (''Error deserializing from '' @ keyIndexFile @ ''. No indices found.'')), w')"
    by (cases "deserialize_try m' z w") simp
  then have "fst (deserialize z w)
      = Some (Error ''Error: Error deserializing from key_indices.txt. No indices found.'')"
    by (simp add: deserialize_with_module [OF dm] rethrow_def error_toString_def
        keyIndexFile_def)
  with serialized pairs show ?thesis
    by simp
qed

theorem empty_bootstrap_collection_witness:
  "Serialize (SchemeSwitchingDataSerializer (loopback []))
     = (None, (SchemeSwitchingDataSerializer (loopback []))
         \<lparr>buffers := \<lparr>cryptoContextBuffer = Some [1], publicKeyBuffer = Some [2],
             secretKeyBuffer = Some [3], evalMultKeyBuffer = Some [1],
             automorphismKeyBuffer = Some [1], FHEWtoCKKSSwitchKeyBuffer = Some [5],
             binfheCryptoContextBuffer = Some [4], binFHEBootRefreshKeyBuffer = Some [5],
             binFHEBootRotKeyBuffer = Some [6], keyIndexBuffer = Some [],
             EvalKeyMappings = []\<rparr>\<rparr>)
   \<and> fst (deserialize
          (createDownloadableFile (snd (Serialize (SchemeSwitchingDataSerializer (loopback [])))))
          (SchemeSwitchingDataDeserializer (loopback [])))
       = Some (Error ''Error: Error deserializing from key_indices.txt. No indices found.'')"
proof -
  define m where "m = loopback []"
  define this where "this = SchemeSwitchingDataSerializer m"
  define z where "z = createDownloadableFile (snd (Serialize this))"
  define w where "w = SchemeSwitchingDataDeserializer m"
  have fields: "module this = Some m" "cryptoContext this = Some 1" "publicKey this = Some 2"
    "secretKey this = Some 3" "binFHECryptoContext this = Some 4"
    "FHEWtoCKKSSwitchKey this = Some 5"
    and fresh: "EvalKeyMappings (buffers this) = []"
    by (simp_all add: this_def SchemeSwitchingDataSerializer_def DataAndLocation_init_def
        buffers_init_def)
  have empty: "BTKeyMap_keys m 4 = []"
    and idx: "SerializeSeedSeqVector m [] = Returns (Some [])"
    and exports: "\<forall>x\<in>set (top_level_exports m 1 2 3 4 5). \<exists>v. fst x = Returns (Some v)"
    by (simp_all add: m_def loopback_def top_level_exports_def write_handle_def)
  have entries:
    "z cryptoContextFile = Some [1]" "z pubKeyFile = Some [2]" "z secretKeyFile = Some [3]"
    "z multKeyFile = Some [1]" "z rotKeyFile = Some [1]" "z FHEWtoCKKSSwitchKeyFile = Some [5]"
    "z binFHECryptoContextFile = Some [4]" "z binFHEBootRefreshKeyFile = Some [5]"
    "z binFHEBootRotKeyFile = Some [6]"
    by (simp_all add: z_def this_def m_def packed_empty file_names)
  have engine:
    "DeserializeCryptoContextFromBuffer m = read_handle"
    "DeserializePublicKeyFromBuffer m = read_handle"
    "DeserializePrivateKeyFromBuffer m = read_handle"
    "DeserializeSwkFC m = read_handle"
    "DeserializeBinFHECryptoContextFromBuffer m = read_handle"
    "DeserializeBinFHERefreshKeyFromBuffer m = read_handle"
    "DeserializeBinFHESwitchingKeyFromBuffer m = read_handle"
    "DeserializeSeedSeqVector m = (\<lambda>buf. Returns (Some (map unat buf)))"
    "DeserializeEvalMultKeyFromBuffer m = (\<lambda>cc buf. Returns ())"
    "DeserializeEvalAutomorphismKeyFromBuffer m = (\<lambda>cc buf. Returns ())"
    by (simp_all add: m_def loopback_def)
  have dm: "module (self w) = Some m"
    by (simp add: w_def SchemeSwitchingDataDeserializer_def)
  have cc: "deserializeFile z cryptoContextFile (DeserializeCryptoContextFromBuffer m) = Inr 1"
    and pk: "deserializeFile z pubKeyFile (DeserializePublicKeyFromBuffer m) = Inr 2"
    and sk: "deserializeFile z secretKeyFile (DeserializePrivateKeyFromBuffer m) = Inr 3"
    and swk: "deserializeFile z FHEWtoCKKSSwitchKeyFile (DeserializeSwkFC m) = Inr 5"
    and bin: "deserializeFile z binFHECryptoContextFile
                (DeserializeBinFHECryptoContextFromBuffer m) = Inr 4"
    and bs: "deserializeFile z binFHEBootRefreshKeyFile
               (DeserializeBinFHERefreshKeyFromBuffer m) = Inr 5"
    and ks: "deserializeFile z binFHEBootRotKeyFile
               (DeserializeBinFHESwitchingKeyFromBuffer m) = Inr 6"
    by (simp_all add: deserializeFile_def entries engine read_handle_def)
  have mult: "z multKeyFile = None
      \<or> (\<exists>b. z multKeyFile = Some b \<and> DeserializeEvalMultKeyFromBuffer m 1 b = Returns ())"
    by (simp add: entries engine)
  have rot: "z rotKeyFile = None
      \<or> (\<exists>b. z rotKeyFile = Some b
              \<and> DeserializeEvalAutomorphismKeyFromBuffer m 1 b = Returns ())"
    by (simp add: entries engine)
  have vec: "DeserializeSeedSeqVector m [] = Returns (Some [])"
    by (simp add: engine)
  from empty_bootstrap_collection
    [OF fields fresh empty exports idx z_def dm cc pk sk swk bin bs ks mult rot vec]
  have "fst (Serialize this) = None"
    and "fst (deserialize z w)
      = Some (Error ''Error: Error deserializing from key_indices.txt. No indices found.'')"
    by simp_all
  moreover have "buffers (snd (Serialize this))
      = \<lparr>cryptoContextBuffer = Some [1], publicKeyBuffer = Some [2],
         secretKeyBuffer = Some [3], evalMultKeyBuffer = Some [1],
         automorphismKeyBuffer = Some [1], FHEWtoCKKSSwitchKeyBuffer = Some [5],
         binfheCryptoContextBuffer = Some [4], binFHEBootRefreshKeyBuffer = Some [5],
         binFHEBootRotKeyBuffer = Some [6], keyIndexBuffer = Some [],
         EvalKeyMappings = []\<rparr>"
    by (simp add: this_def m_def serialized_empty)
  moreover have "snd (Serialize this) = this\<lparr>buffers := buffers (snd (Serialize this))\<rparr>"
    by (simp add: Serialize_def this_def SchemeSwitchingDataSerializer_def
        split: prod.splits)
  ultimately have "Serialize this
      = (None, this\<lparr>buffers := \<lparr>cryptoContextBuffer = Some [1], publicKeyBuffer = Some [2],
             secretKeyBuffer = Some [3], evalMultKeyBuffer = Some [1],
             automorphismKeyBuffer = Some [1], FHEWtoCKKSSwitchKeyBuffer = Some [5],
             binfheCryptoContextBuffer = Some [4], binFHEBootRefreshKeyBuffer = Some [5],
             binFHEBootRotKeyBuffer = Some [6], keyIndexBuffer = Some [],
             EvalKeyMappings = []\<rparr>\<rparr>)"
    and "fst (deserialize z w)
      = Some (Error ''Error: Error deserializing from key_indices.txt. No indices found.'')"
    by (simp_all add: prod_eq_iff)
  then show ?thesis
    by (simp only: z_def w_def this_def m_def simp_thms)
qed

section \<open>Unpacking an archive\<close>

text \<open>
  Claim C7, as the code has it. \<open>uploadFile\<close> throws nothing once the archive is loaded.
  It reads nine file names, and each of the nine buffers becomes what the archive holds
  under its name, so it is absent when the entry is absent. The secret key file is not
  among them: \<open>secretKeyBuffer\<close> keeps the value it had, as \<open>EvalKeyMappings\<close> does.
\<close>

theorem uploadFile_reads_nine:
  "fst (uploadFile z this) = None
   \<and> cryptoContextBuffer (buffers (snd (uploadFile z this))) = z cryptoContextFile
   \<and> publicKeyBuffer (buffers (snd (uploadFile z this))) = z pubKeyFile
   \<and> evalMultKeyBuffer (buffers (snd (uploadFile z this))) = z multKeyFile
   \<and> automorphismKeyBuffer (buffers (snd (uploadFile z this))) = z rotKeyFile
   \<and> FHEWtoCKKSSwitchKeyBuffer (buffers (snd (uploadFile z this))) = z FHEWtoCKKSSwitchKeyFile
   \<and> binfheCryptoContextBuffer (buffers (snd (uploadFile z this))) = z binFHECryptoContextFile
   \<and> binFHEBootRefreshKeyBuffer (buffers (snd (uploadFile z this)))
       = z binFHEBootRefreshKeyFile
   \<and> binFHEBootRotKeyBuffer (buffers (snd (uploadFile z this))) = z binFHEBootRotKeyFile
   \<and> keyIndexBuffer (buffers (snd (uploadFile z this))) = z keyIndexFile
   \<and> secretKeyBuffer (buffers (snd (uploadFile z this))) = secretKeyBuffer (buffers this)
   \<and> EvalKeyMappings (buffers (snd (uploadFile z this))) = EvalKeyMappings (buffers this)"
  by (simp add: uploadFile_def readFileFromZip_def)

text \<open>
  Claim C7 as stated has an entry read for each fixed file name, and an absent buffer
  stored for each absent entry. The secret key entry of an archive is not read: a new
  instance keeps \<open>null\<close> though the entry is there, and an instance that holds a secret
  key buffer keeps it though the entry is absent.
\<close>

theorem uploadFile_skips_secretKey:
  "[secretKeyFile \<mapsto> [9]] secretKeyFile = Some [9]
   \<and> secretKeyBuffer (buffers (snd (uploadFile [secretKeyFile \<mapsto> [9]] DataAndLocation_init)))
       = None
   \<and> (Map.empty :: archive) secretKeyFile = None
   \<and> secretKeyBuffer (buffers (snd (uploadFile Map.empty
         (DataAndLocation_init\<lparr>buffers := buffers_init\<lparr>secretKeyBuffer := Some [3]\<rparr>\<rparr>))))
       = Some [3]"
  by (simp add: uploadFile_def DataAndLocation_init_def buffers_init_def)

end
